theory Spec2Isabelle
  imports Complex_Main
begin

section \<open>Python values\<close>

text \<open>
  The integration handles JSON documents decoded by the TGTG client and plain Python
  scalars. A value is one of the JSON-decoded kinds. Dictionaries are association lists
  in insertion order; every operation below treats the first entry of a key as the entry
  of that key. Text is a list of 8-bit characters; the operations that look inside a
  string (\<open>int()\<close>, \<open>repr()\<close>, iteration, substring test) are exact on ASCII text.

  A float is an IEEE-754 binary64 number: \<open>FFin s m e\<close> is \<open>(-1)^s * m * 2^e\<close>, in
  canonical form (\<open>2^52 \<le> m < 2^53\<close> and \<open>-1074 \<le> e \<le> 971\<close>, or \<open>m < 2^52\<close> and
  \<open>e = -1074\<close>, or \<open>m = 0\<close> and \<open>e = 0\<close>); \<open>s\<close> is the sign bit.
\<close>

datatype pyfloat = FFin bool nat int | FInf bool | FNaN

datatype pyval =
    PNone
  | PBool bool
  | PInt int
  | PFloat pyfloat
  | PStr string
  | PList "pyval list"
  | PDict "(pyval \<times> pyval) list"

text \<open>
  Exceptions are values: the class, which an \<open>except\<close> clause tests, and the text
  \<open>str(err)\<close>, which the coordinator copies into its own error. The texts are those of
  CPython 3.11.
\<close>

datatype exc_class =
  KeyError | TypeError | ValueError | OverflowError | ZeroDivisionError | AttributeError
  | OtherError

datatype pyexc = Exc exc_class string

definition raise :: "exc_class \<Rightarrow> string \<Rightarrow> pyexc + 'a" where
  "raise c m = Inl (Exc c m)"

definition ebind :: "pyexc + 'a \<Rightarrow> ('a \<Rightarrow> pyexc + 'b) \<Rightarrow> pyexc + 'b" where
  "ebind r f = (case r of Inl e \<Rightarrow> Inl e | Inr x \<Rightarrow> f x)"

definition type_name :: "pyval \<Rightarrow> string" where
  "type_name v =
     (case v of PNone \<Rightarrow> ''NoneType'' | PBool _ \<Rightarrow> ''bool'' | PInt _ \<Rightarrow> ''int''
      | PFloat _ \<Rightarrow> ''float'' | PStr _ \<Rightarrow> ''str'' | PList _ \<Rightarrow> ''list''
      | PDict _ \<Rightarrow> ''dict'')"

section \<open>Integers and text\<close>

definition digit_char :: "nat \<Rightarrow> char" where
  "digit_char d = ''0123456789abcdef'' ! d"

fun digits10 :: "nat \<Rightarrow> string" where
  "digits10 n = (if n < 10 then [digit_char n] else digits10 (n div 10) @ [digit_char (n mod 10)])"

declare digits10.simps [simp del]

definition int_text :: "int \<Rightarrow> string" where
  "int_text n = (if n < 0 then ''-'' @ digits10 (nat (- n)) else digits10 (nat n))"

text \<open>The interpreter's default limit on conversions between \<open>int\<close> and \<open>str\<close>.\<close>

definition int_max_str_digits :: nat where
  "int_max_str_digits = 4300"

definition limit_text :: string where
  "limit_text = ''Exceeds the limit (4300 digits) for integer string conversion''"

definition limit_hint :: string where
  "limit_hint = ''; use sys.set_int_max_str_digits() to increase the limit''"

text \<open>\<open>str(n)\<close> for an \<open>int\<close>.\<close>

definition int_str :: "int \<Rightarrow> pyexc + string" where
  "int_str n =
     (if int_max_str_digits < length (digits10 (nat \<bar>n\<bar>))
      then raise ValueError (limit_text @ limit_hint)
      else Inr (int_text n))"

text \<open>\<open>repr(s)\<close> for a \<open>str\<close>.\<close>

definition hex2 :: "nat \<Rightarrow> string" where
  "hex2 n = [digit_char (n div 16), digit_char (n mod 16)]"

definition escape_char :: "char \<Rightarrow> char \<Rightarrow> string" where
  "escape_char quote c =
     (if c = quote \<or> c = CHR 0x5C then [CHR 0x5C, c]
      else if c = CHR 0x09 then [CHR 0x5C, CHR ''t'']
      else if c = CHR 0x0A then [CHR 0x5C, CHR ''n'']
      else if c = CHR 0x0D then [CHR 0x5C, CHR ''r'']
      else if of_char c < (32 :: nat) \<or> c = CHR 0x7F
        then [CHR 0x5C, CHR ''x''] @ hex2 (of_char c)
      else [c])"

definition str_repr :: "string \<Rightarrow> string" where
  "str_repr s =
     (let quote = (if CHR 0x27 \<in> set s \<and> CHR 0x22 \<notin> set s then CHR 0x22 else CHR 0x27)
      in [quote] @ concat (map (escape_char quote) s) @ [quote])"

text \<open>\<open>int(s)\<close> for a \<open>str\<close>: surrounding white space, a sign, decimal digits with single
  underscores between them. The error text shows the first 200 characters of the
  literal's \<open>repr\<close>.\<close>

definition is_space :: "char \<Rightarrow> bool" where
  "is_space c = (c = CHR 0x20 \<or> c = CHR 0x09 \<or> c = CHR 0x0A \<or> c = CHR 0x0B \<or> c = CHR 0x0C
     \<or> c = CHR 0x0D)"

definition is_digit :: "char \<Rightarrow> bool" where
  "is_digit c = (48 \<le> (of_char c :: nat) \<and> (of_char c :: nat) \<le> 57)"

definition strip :: "string \<Rightarrow> string" where
  "strip s = rev (dropWhile is_space (rev (dropWhile is_space s)))"

fun grouped_digits :: "string \<Rightarrow> bool" where
  "grouped_digits [] = False"
| "grouped_digits [c] = is_digit c"
| "grouped_digits (c # d # cs) =
     (is_digit c \<and> (if d = CHR ''_'' then grouped_digits cs else grouped_digits (d # cs)))"

definition digits_value :: "string \<Rightarrow> nat" where
  "digits_value ds = foldl (\<lambda>acc c. 10 * acc + (of_char c - 48)) 0 ds"

definition invalid_literal :: "string \<Rightarrow> pyexc + 'a" where
  "invalid_literal s =
     raise ValueError (''invalid literal for int() with base 10: '' @ take 200 (str_repr s))"

definition str_int :: "string \<Rightarrow> pyexc + int" where
  "str_int s =
     (let t = strip s;
          negative = (t \<noteq> [] \<and> hd t = CHR ''-'');
          body = (if t \<noteq> [] \<and> (hd t = CHR ''-'' \<or> hd t = CHR ''+'') then tl t else t);
          run = takeWhile (\<lambda>c. is_digit c \<or> c = CHR ''_'') body;
          ds = filter is_digit run
      in if \<not> grouped_digits run then invalid_literal s
         else if int_max_str_digits < length ds
           then raise ValueError (limit_text @ '': value has '' @ digits10 (length ds)
                  @ '' digits'' @ limit_hint)
         else if run \<noteq> body then invalid_literal s
         else Inr (if negative then - int (digits_value ds) else int (digits_value ds)))"

section \<open>Floats\<close>

text \<open>
  Rounding to the nearest binary64 number, ties to even. A non-negative rational is given
  as a fraction \<open>a / b\<close> of naturals with \<open>0 < b\<close>.
\<close>

fun bit_length :: "nat \<Rightarrow> nat" where
  "bit_length n = (if n = 0 then 0 else Suc (bit_length (n div 2)))"

declare bit_length.simps [simp del]

definition round_half_even :: "nat \<Rightarrow> nat \<Rightarrow> nat" where
  "round_half_even a b =
     (let q = a div b; r = a mod b
      in if 2 * r < b then q else if b < 2 * r then q + 1 else if even q then q else q + 1)"

text \<open>\<open>scale2 a b e\<close> is the fraction \<open>a / (b * 2^e)\<close>, \<open>scale10 a b s\<close> is \<open>a * 10^s / b\<close>.\<close>

definition scale2 :: "nat \<Rightarrow> nat \<Rightarrow> int \<Rightarrow> nat \<times> nat" where
  "scale2 a b e = (if 0 \<le> e then (a, b * 2 ^ nat e) else (a * 2 ^ nat (- e), b))"

definition scale10 :: "nat \<Rightarrow> nat \<Rightarrow> int \<Rightarrow> nat \<times> nat" where
  "scale10 a b s = (if 0 \<le> s then (a * 10 ^ nat s, b) else (a, b * 10 ^ nat (- s)))"

text \<open>The largest \<open>l\<close> with \<open>2^l \<le> a / b\<close>, for \<open>0 < a\<close>.\<close>

definition floor_log2 :: "nat \<Rightarrow> nat \<Rightarrow> int" where
  "floor_log2 a b =
     (let l = int (bit_length a) - int (bit_length b); (n, d) = scale2 a b l
      in if d \<le> n then l else l - 1)"

text \<open>\<open>None\<close> when the rounded value is beyond the largest finite float.\<close>

definition nearest_double :: "bool \<Rightarrow> nat \<Rightarrow> nat \<Rightarrow> pyfloat option" where
  "nearest_double s a b =
     (if a = 0 then Some (FFin s 0 0)
      else
        let e = max (floor_log2 a b - 52) (- 1074);
            (n, d) = scale2 a b e;
            m = round_half_even n d
        in if m = 0 then Some (FFin s 0 0)
           else if m = 2 ^ 53 then (if 971 < e + 1 then None else Some (FFin s (2 ^ 52) (e + 1)))
           else if 971 < e then None
           else Some (FFin s m e))"

text \<open>\<open>float(n)\<close> for an \<open>int\<close>, and \<open>a / b\<close> for two \<open>int\<close>s (correctly rounded).\<close>

definition int_float :: "int \<Rightarrow> pyexc + pyfloat" where
  "int_float n =
     (case nearest_double (n < 0) (nat \<bar>n\<bar>) 1 of
        None \<Rightarrow> raise OverflowError ''int too large to convert to float''
      | Some x \<Rightarrow> Inr x)"

definition int_truediv :: "int \<Rightarrow> int \<Rightarrow> pyexc + pyfloat" where
  "int_truediv a b =
     (if b = 0 then raise ZeroDivisionError ''division by zero''
      else case nearest_double ((a < 0) \<noteq> (b < 0)) (nat \<bar>a\<bar>) (nat \<bar>b\<bar>) of
        None \<Rightarrow> raise OverflowError ''integer division result too large for a float''
      | Some x \<Rightarrow> Inr x)"

text \<open>\<open>x / y\<close> for two \<open>float\<close>s: a zero divisor raises, everything else is IEEE division
  (an overflow gives an infinity).\<close>

definition float_div :: "pyfloat \<Rightarrow> pyfloat \<Rightarrow> pyexc + pyfloat" where
  "float_div x y =
     (case y of
        FFin t m2 e2 \<Rightarrow>
          if m2 = 0 then raise ZeroDivisionError ''float division by zero''
          else (case x of
              FFin s m1 e1 \<Rightarrow>
                (let (n, d) = scale2 m1 m2 (e2 - e1)
                 in case nearest_double (s \<noteq> t) n d of
                      None \<Rightarrow> Inr (FInf (s \<noteq> t))
                    | Some z \<Rightarrow> Inr z)
            | FInf s \<Rightarrow> Inr (FInf (s \<noteq> t))
            | FNaN \<Rightarrow> Inr FNaN)
      | FInf t \<Rightarrow>
          (case x of FFin s _ _ \<Rightarrow> Inr (FFin (s \<noteq> t) 0 0) | FInf _ \<Rightarrow> Inr FNaN
           | FNaN \<Rightarrow> Inr FNaN)
      | FNaN \<Rightarrow> Inr FNaN)"

text \<open>\<open>x + y\<close> for two \<open>float\<close>s (IEEE addition, never raises).\<close>

definition float_signed :: "bool \<Rightarrow> nat \<Rightarrow> int" where
  "float_signed s m = (if s then - int m else int m)"

definition float_add :: "pyfloat \<Rightarrow> pyfloat \<Rightarrow> pyfloat" where
  "float_add x y =
     (case (x, y) of
        (FNaN, _) \<Rightarrow> FNaN
      | (_, FNaN) \<Rightarrow> FNaN
      | (FInf s, FInf t) \<Rightarrow> (if s = t then FInf s else FNaN)
      | (FInf s, _) \<Rightarrow> FInf s
      | (_, FInf t) \<Rightarrow> FInf t
      | (FFin s m1 e1, FFin t m2 e2) \<Rightarrow>
          (let e = min e1 e2;
               n = float_signed s m1 * 2 ^ nat (e1 - e) + float_signed t m2 * 2 ^ nat (e2 - e)
           in if n = 0 then FFin (s \<and> t) 0 0
              else (let (a, b) = scale2 (nat \<bar>n\<bar>) 1 (- e)
                    in case nearest_double (n < 0) a b of
                         None \<Rightarrow> FInf (n < 0)
                       | Some z \<Rightarrow> z)))"

text \<open>\<open>int(x)\<close> for a \<open>float\<close>: truncation towards zero.\<close>

definition float_int :: "pyfloat \<Rightarrow> pyexc + int" where
  "float_int x =
     (case x of
        FNaN \<Rightarrow> raise ValueError ''cannot convert float NaN to integer''
      | FInf _ \<Rightarrow> raise OverflowError ''cannot convert float infinity to integer''
      | FFin s m e \<Rightarrow>
          Inr (float_signed s (if 0 \<le> e then m * 2 ^ nat e else m div 2 ^ nat (- e))))"

text \<open>\<open>x > 0\<close> for a \<open>float\<close>.\<close>

definition float_positive :: "pyfloat \<Rightarrow> bool" where
  "float_positive x =
     (case x of FFin s m e \<Rightarrow> \<not> s \<and> 0 < m | FInf s \<Rightarrow> \<not> s | FNaN \<Rightarrow> False)"

subsection \<open>The text of a float\<close>

text \<open>
  \<open>str(x)\<close> and \<open>repr(x)\<close> of a float are the shortest decimal numeral that reads back as
  \<open>x\<close>, the nearest to \<open>x\<close> among the shortest; in exponent notation when the decimal point
  would lie more than 16 places right or more than 3 places left of the first digit.
\<close>

text \<open>The largest \<open>k\<close> with \<open>10^k \<le> a / b\<close>, for \<open>0 < a\<close>.\<close>

definition decimal_exponent :: "nat \<Rightarrow> nat \<Rightarrow> int" where
  "decimal_exponent a b =
     (if b \<le> a then int (length (digits10 (a div b))) - 1
      else
        let d = length (digits10 (b div a))
        in if a * 10 ^ (d - 1) = b then - int (d - 1) else - int d)"

definition round_trips :: "pyfloat \<Rightarrow> nat \<Rightarrow> int \<Rightarrow> bool" where
  "round_trips x c s = (let (n, d) = scale10 c 1 (- s) in nearest_double False n d = Some x)"

text \<open>The numeral \<open>c * 10^(-s)\<close> next to \<open>a / b\<close> that reads back as \<open>x\<close>, if there is one:
  the nearer of the two neighbours when both read back, the even one on a tie.\<close>

definition try_digits :: "pyfloat \<Rightarrow> nat \<Rightarrow> nat \<Rightarrow> int \<Rightarrow> (nat \<times> int) option" where
  "try_digits x a b s =
     (let (n, d) = scale10 a b s;
          lo = n div d;
          hi = lo + 1;
          lo_nearer = (2 * (n mod d) < d \<or> (2 * (n mod d) = d \<and> even lo))
      in if round_trips x lo s \<and> (lo_nearer \<or> \<not> round_trips x hi s) then Some (lo, s)
         else if round_trips x hi s then Some (hi, s)
         else None)"

fun shortest :: "pyfloat \<Rightarrow> nat \<Rightarrow> nat \<Rightarrow> int \<Rightarrow> nat \<Rightarrow> nat \<times> int" where
  "shortest x a b s 0 = (fst (scale10 a b s) div snd (scale10 a b s), s)"
| "shortest x a b s (Suc fuel) =
     (case try_digits x a b s of Some r \<Rightarrow> r | None \<Rightarrow> shortest x a b (s + 1) fuel)"

definition float_format :: "string \<Rightarrow> int \<Rightarrow> string" where
  "float_format ds decpt =
     (if decpt \<le> - 4 \<or> 16 < decpt then
        [hd ds] @ (if tl ds = [] then [] else ''.'' @ tl ds) @ ''e''
          @ (if decpt - 1 < 0 then ''-'' else ''+'')
          @ (let x = digits10 (nat \<bar>decpt - 1\<bar>) in if length x < 2 then ''0'' @ x else x)
      else if decpt \<le> 0 then ''0.'' @ replicate (nat (- decpt)) (CHR ''0'') @ ds
      else if int (length ds) \<le> decpt
        then ds @ replicate (nat decpt - length ds) (CHR ''0'') @ ''.0''
      else take (nat decpt) ds @ ''.'' @ drop (nat decpt) ds)"

definition float_repr :: "pyfloat \<Rightarrow> string" where
  "float_repr x =
     (case x of
        FNaN \<Rightarrow> ''nan''
      | FInf s \<Rightarrow> (if s then ''-inf'' else ''inf'')
      | FFin s m e \<Rightarrow>
          (if s then ''-'' else [])
          @ (if m = 0 then ''0.0''
             else
               let (a, b) = scale2 m 1 (- e);
                   k = decimal_exponent a b;
                   (c, s') = shortest (FFin False m e) a b (- k) 17;
                   ds = digits10 c
               in float_format (rev (dropWhile (\<lambda>c. c = CHR ''0'') (rev ds)))
                    (int (length ds) - s')))"

text \<open>
  \<open>pow(10, n)\<close> for an \<open>int\<close> \<open>n\<close>: an \<open>int\<close> for \<open>0 \<le> n\<close>; for a negative exponent both
  operands are converted to \<open>float\<close> and the result is the float power, taken here as the
  correctly rounded value of \<open>10^n\<close> (it underflows to \<open>0.0\<close>).
\<close>

definition pow10 :: "int \<Rightarrow> pyexc + pyval" where
  "pow10 n =
     (if 0 \<le> n then Inr (PInt (10 ^ nat n))
      else ebind (int_float n) (\<lambda>_.
        case nearest_double False 1 (10 ^ nat (- n)) of
          None \<Rightarrow> raise OverflowError (''(34, '' @ str_repr ''Numerical result out of range'' @ '')'')
        | Some x \<Rightarrow> Inr (PFloat x)))"

section \<open>Operations on values\<close>

text \<open>\<open>repr(v)\<close> and \<open>str(v)\<close>.\<close>

definition join :: "string \<Rightarrow> string list \<Rightarrow> string" where
  "join sep xs = (case xs of [] \<Rightarrow> [] | y # ys \<Rightarrow> y @ concat (map (\<lambda>z. sep @ z) ys))"

function py_repr :: "pyval \<Rightarrow> pyexc + string"
  and repr_elems :: "pyval list \<Rightarrow> pyexc + string list"
  and repr_items :: "(pyval \<times> pyval) list \<Rightarrow> pyexc + string list" where
  "py_repr PNone = Inr ''None''"
| "py_repr (PBool b) = Inr (if b then ''True'' else ''False'')"
| "py_repr (PInt n) = int_str n"
| "py_repr (PFloat x) = Inr (float_repr x)"
| "py_repr (PStr s) = Inr (str_repr s)"
| "py_repr (PList xs) = ebind (repr_elems xs) (\<lambda>rs. Inr (''['' @ join '', '' rs @ '']''))"
| "py_repr (PDict kvs) = ebind (repr_items kvs) (\<lambda>rs. Inr (''{'' @ join '', '' rs @ ''}''))"
| "repr_elems [] = Inr []"
| "repr_elems (x # xs) =
     ebind (py_repr x) (\<lambda>r. ebind (repr_elems xs) (\<lambda>rs. Inr (r # rs)))"
| "repr_items [] = Inr []"
| "repr_items ((k, v) # kvs) =
     ebind (py_repr k) (\<lambda>a. ebind (py_repr v) (\<lambda>b.
       ebind (repr_items kvs) (\<lambda>rs. Inr ((a @ '': '' @ b) # rs))))"
  by pat_completeness auto

termination
  by (relation "measure (\<lambda>x. case x of Inl v \<Rightarrow> size v | Inr (Inl xs) \<Rightarrow> size_list size xs
        | Inr (Inr kvs) \<Rightarrow> size_list (size_prod size size) kvs)") auto

definition py_str :: "pyval \<Rightarrow> pyexc + string" where
  "py_str v = (case v of PStr s \<Rightarrow> Inr s | _ \<Rightarrow> py_repr v)"

text \<open>\<open>int(v)\<close>.\<close>

definition py_int :: "pyval \<Rightarrow> pyexc + int" where
  "py_int v =
     (case v of
        PInt n \<Rightarrow> Inr n
      | PBool b \<Rightarrow> Inr (if b then 1 else 0)
      | PFloat x \<Rightarrow> float_int x
      | PStr s \<Rightarrow> str_int s
      | _ \<Rightarrow> raise TypeError
          (''int() argument must be a string, a bytes-like object or a real number, not ''
             @ str_repr (type_name v)))"

text \<open>\<open>a / d\<close> for an \<open>int\<close> \<open>a\<close>.\<close>

definition py_truediv :: "int \<Rightarrow> pyval \<Rightarrow> pyexc + pyfloat" where
  "py_truediv a d =
     (case d of
        PInt b \<Rightarrow> int_truediv a b
      | PBool b \<Rightarrow> int_truediv a (if b then 1 else 0)
      | PFloat y \<Rightarrow> ebind (int_float a) (\<lambda>x. float_div x y)
      | _ \<Rightarrow> raise TypeError
          (''unsupported operand type(s) for /: '' @ str_repr ''int'' @ '' and ''
             @ str_repr (type_name d)))"

text \<open>\<open>s + v\<close> for a \<open>str\<close> \<open>s\<close>.\<close>

definition py_concat :: "string \<Rightarrow> pyval \<Rightarrow> pyexc + string" where
  "py_concat s v =
     (case v of
        PStr t \<Rightarrow> Inr (s @ t)
      | _ \<Rightarrow> raise TypeError
          (''can only concatenate str (not '' @ [CHR 0x22] @ type_name v @ [CHR 0x22]
             @ '') to str''))"

text \<open>\<open>acc += v\<close> for a number \<open>acc\<close>, and \<open>acc > 0\<close>.\<close>

definition py_iadd :: "pyval \<Rightarrow> pyval \<Rightarrow> pyexc + pyval" where
  "py_iadd acc v =
     (let unsupported = raise TypeError
            (''unsupported operand type(s) for +=: '' @ str_repr (type_name acc)
               @ '' and '' @ str_repr (type_name v))
      in case acc of
           PInt a \<Rightarrow>
             (case v of
                PInt b \<Rightarrow> Inr (PInt (a + b))
              | PBool b \<Rightarrow> Inr (PInt (a + (if b then 1 else 0)))
              | PFloat y \<Rightarrow> ebind (int_float a) (\<lambda>x. Inr (PFloat (float_add x y)))
              | _ \<Rightarrow> unsupported)
         | PFloat x \<Rightarrow>
             (case v of
                PInt b \<Rightarrow> ebind (int_float b) (\<lambda>y. Inr (PFloat (float_add x y)))
              | PBool b \<Rightarrow>
                  ebind (int_float (if b then 1 else 0)) (\<lambda>y. Inr (PFloat (float_add x y)))
              | PFloat y \<Rightarrow> Inr (PFloat (float_add x y))
              | _ \<Rightarrow> unsupported)
         | _ \<Rightarrow> unsupported)"

definition py_positive :: "pyval \<Rightarrow> bool" where
  "py_positive acc =
     (case acc of PInt n \<Rightarrow> 0 < n | PFloat x \<Rightarrow> float_positive x | _ \<Rightarrow> False)"

subsection \<open>Dictionaries\<close>

text \<open>
  Two keys are the same key when they are equal and hash alike: equal text, or equal
  numbers (so \<open>1\<close>, \<open>1.0\<close> and \<open>True\<close> are one key). Lists and dictionaries are unhashable.
\<close>

datatype key = KNone | KNum rat | KInf bool | KNaN | KStr string

definition key_of :: "pyval \<Rightarrow> key option" where
  "key_of v =
     (case v of
        PNone \<Rightarrow> Some KNone
      | PBool b \<Rightarrow> Some (KNum (if b then 1 else 0))
      | PInt n \<Rightarrow> Some (KNum (of_int n))
      | PFloat (FFin s m e) \<Rightarrow>
          Some (KNum (of_int (float_signed s m)
                 * (if 0 \<le> e then 2 ^ nat e else 1 / 2 ^ nat (- e))))
      | PFloat (FInf s) \<Rightarrow> Some (KInf s)
      | PFloat FNaN \<Rightarrow> Some KNaN
      | PStr s \<Rightarrow> Some (KStr s)
      | PList _ \<Rightarrow> None
      | PDict _ \<Rightarrow> None)"

definition same_key :: "pyval \<Rightarrow> pyval \<Rightarrow> bool" where
  "same_key a b = (key_of a = key_of b)"

fun dict_get :: "(pyval \<times> pyval) list \<Rightarrow> pyval \<Rightarrow> pyval option" where
  "dict_get [] k = None"
| "dict_get ((k', v) # kvs) k = (if same_key k' k then Some v else dict_get kvs k)"

fun dict_set :: "(pyval \<times> pyval) list \<Rightarrow> pyval \<Rightarrow> pyval \<Rightarrow> (pyval \<times> pyval) list" where
  "dict_set [] k v = [(k, v)]"
| "dict_set ((k', v') # kvs) k v =
     (if same_key k' k then (k', v) # kvs else (k', v') # dict_set kvs k v)"

text \<open>\<open>d[k] = v\<close> for a \<open>dict\<close> \<open>d\<close>.\<close>

definition py_setitem ::
  "(pyval \<times> pyval) list \<Rightarrow> pyval \<Rightarrow> pyval \<Rightarrow> pyexc + (pyval \<times> pyval) list" where
  "py_setitem d k v =
     (if key_of k = None then raise TypeError (''unhashable type: '' @ str_repr (type_name k))
      else Inr (dict_set d k v))"

text \<open>\<open>v[k]\<close> for a \<open>str\<close> \<open>k\<close>.\<close>

definition subscript :: "pyval \<Rightarrow> string \<Rightarrow> pyexc + pyval" where
  "subscript v k =
     (case v of
        PDict kvs \<Rightarrow>
          (case dict_get kvs (PStr k) of None \<Rightarrow> raise KeyError (str_repr k) | Some x \<Rightarrow> Inr x)
      | PList _ \<Rightarrow> raise TypeError ''list indices must be integers or slices, not str''
      | PStr _ \<Rightarrow> raise TypeError (''string indices must be integers, not '' @ str_repr ''str'')
      | _ \<Rightarrow> raise TypeError (str_repr (type_name v) @ '' object is not subscriptable''))"

text \<open>\<open>k in v\<close> for a \<open>str\<close> \<open>k\<close>: a key of a dictionary, an element of a list, a substring of a
  string.\<close>

fun is_substring :: "string \<Rightarrow> string \<Rightarrow> bool" where
  "is_substring k [] = (k = [])"
| "is_substring k (c # cs) = (take (length k) (c # cs) = k \<or> is_substring k cs)"

definition contains :: "string \<Rightarrow> pyval \<Rightarrow> pyexc + bool" where
  "contains k v =
     (case v of
        PDict kvs \<Rightarrow> Inr (dict_get kvs (PStr k) \<noteq> None)
      | PList xs \<Rightarrow> Inr (PStr k \<in> set xs)
      | PStr s \<Rightarrow> Inr (is_substring k s)
      | _ \<Rightarrow> raise TypeError
          (''argument of type '' @ str_repr (type_name v) @ '' is not iterable''))"

text \<open>The elements a \<open>for\<close> loop over \<open>v\<close> visits.\<close>

definition py_iter :: "pyval \<Rightarrow> pyexc + pyval list" where
  "py_iter v =
     (case v of
        PList xs \<Rightarrow> Inr xs
      | PStr s \<Rightarrow> Inr (map (\<lambda>c. PStr [c]) s)
      | PDict kvs \<Rightarrow> Inr (map fst kvs)
      | _ \<Rightarrow> raise TypeError (str_repr (type_name v) @ '' object is not iterable''))"

text \<open>\<open>v.get(k, default)\<close> for a \<open>str\<close> \<open>k\<close>.\<close>

definition py_get :: "pyval \<Rightarrow> string \<Rightarrow> pyval \<Rightarrow> pyexc + pyval" where
  "py_get v k dflt =
     (case v of
        PDict kvs \<Rightarrow> Inr (case dict_get kvs (PStr k) of None \<Rightarrow> dflt | Some x \<Rightarrow> x)
      | _ \<Rightarrow> raise AttributeError
          (str_repr (type_name v) @ '' object has no attribute '' @ str_repr ''get''))"

section \<open>Constants (const.py)\<close>

definition DOMAIN :: string where "DOMAIN = ''tgtg''"

definition ATTR_ITEM_ID :: string where "ATTR_ITEM_ID = ''item_id''"
definition ATTR_ITEM_URL :: string where "ATTR_ITEM_URL = ''item_url''"
definition ATTR_PRICE :: string where "ATTR_PRICE = ''item_price''"
definition ATTR_VALUE :: string where "ATTR_VALUE = ''original_value''"
definition ATTR_PICKUP_START :: string where "ATTR_PICKUP_START = ''pickup_start''"
definition ATTR_PICKUP_END :: string where "ATTR_PICKUP_END = ''pickup_end''"
definition ATTR_SOLDOUT_TIMESTAMP :: string where "ATTR_SOLDOUT_TIMESTAMP = ''soldout_timestamp''"
definition ATTR_ORDERS_PLACED :: string where "ATTR_ORDERS_PLACED = ''orders_placed''"
definition ATTR_TOTAL_QUANTITY_ORDERED :: string where
  "ATTR_TOTAL_QUANTITY_ORDERED = ''total_quantity_ordered''"
definition ATTR_PICKUP_WINDOW_CHANGED :: string where
  "ATTR_PICKUP_WINDOW_CHANGED = ''pickup_window_changed''"
definition ATTR_CANCEL_UNTIL :: string where "ATTR_CANCEL_UNTIL = ''cancel_until''"
definition ATTR_LOGO_URL :: string where "ATTR_LOGO_URL = ''logo_url''"
definition ATTR_COVER_URL :: string where "ATTR_COVER_URL = ''cover_url''"

definition DEFAULT_UPDATE_INTERVAL :: nat where "DEFAULT_UPDATE_INTERVAL = 30"

section \<open>The coordinator (sensor.py, TGTGDataUpdateCoordinator)\<close>

text \<open>
  The TGTG client is the outside world: \<open>get_item\<close> and \<open>get_favorites\<close> either return
  the decoded response or raise. The model takes the answers of one refresh cycle as
  given, \<open>get_item\<close> as a function of the requested identifier. Only exceptions derived
  from \<open>Exception\<close> are modelled.
\<close>

record tgtg_client =
  get_item :: "string \<Rightarrow> pyexc + pyval"
  get_favorites :: "pyexc + pyval"

datatype update_failed = UpdateFailed string

text \<open>Lines 145--149: the loop over the configured identifiers.\<close>

fun fetch_items ::
  "(string \<Rightarrow> pyexc + pyval) \<Rightarrow> string list \<Rightarrow> (pyval \<times> pyval) list
    \<Rightarrow> pyexc + (pyval \<times> pyval) list" where
  "fetch_items get [] snapshot = Inr snapshot"
| "fetch_items get (item_id # rest) snapshot =
     ebind (get item_id) (\<lambda>item_data.
     ebind (py_setitem snapshot (PStr item_id) item_data) (fetch_items get rest))"

text \<open>Lines 156--158: the loop over the favorites; \<open>favorite_id\<close> is
  \<open>item["item"]["item_id"]\<close> (line 157).\<close>

definition favorite_id :: "pyval \<Rightarrow> pyexc + pyval" where
  "favorite_id item = ebind (subscript item ''item'') (\<lambda>inner. subscript inner ''item_id'')"

fun store_favorites ::
  "pyval list \<Rightarrow> (pyval \<times> pyval) list \<Rightarrow> pyexc + (pyval \<times> pyval) list" where
  "store_favorites [] snapshot = Inr snapshot"
| "store_favorites (item # rest) snapshot =
     ebind (favorite_id item) (\<lambda>item_id.
     ebind (py_setitem snapshot item_id item) (store_favorites rest))"

text \<open>Lines 134--160: the body of the \<open>try\<close> statement.\<close>

definition fetch_data :: "tgtg_client \<Rightarrow> string list \<Rightarrow> pyexc + (pyval \<times> pyval) list" where
  "fetch_data client ids =
     ebind (py_setitem [] (PStr ''orders'') (PStr [])) (\<lambda>snapshot.
       if ids \<noteq> [[]] then fetch_items (get_item client) ids snapshot
       else ebind (get_favorites client) (\<lambda>favorites.
            ebind (py_iter favorites) (\<lambda>entries. store_favorites entries snapshot)))"

text \<open>Lines 131--162: \<open>_async_update_data\<close>, with the \<open>except Exception\<close> clause.\<close>

definition update_data :: "tgtg_client \<Rightarrow> string list \<Rightarrow> update_failed + pyval" where
  "update_data client ids =
     (case fetch_data client ids of
        Inr snapshot \<Rightarrow> Inr (PDict snapshot)
      | Inl (Exc c err) \<Rightarrow> Inl (UpdateFailed (''Error communicating with TGTG API: '' @ err)))"

text \<open>
  The coordinator object: the client and the configured identifiers (lines 128--129), and
  the attributes of the base class that hold the published snapshot. \<open>data\<close> is \<open>None\<close>
  until a cycle has succeeded.
\<close>

record coordinator =
  tgtg_client :: tgtg_client
  items :: "string list"
  data :: pyval
  last_update_success :: bool
  last_exception :: "update_failed option"

definition TGTGDataUpdateCoordinator_init :: "tgtg_client \<Rightarrow> string list \<Rightarrow> coordinator" where
  "TGTGDataUpdateCoordinator_init client ids =
     \<lparr>tgtg_client = client, items = ids, data = PNone, last_update_success = True,
      last_exception = None\<rparr>"

definition async_update_data :: "coordinator \<Rightarrow> update_failed + pyval" where
  "async_update_data self = update_data (tgtg_client self) (items self)"

text \<open>
  Modelled from the spec: the refresh step of the host platform's \<open>DataUpdateCoordinator\<close>,
  the base class of the coordinator, which is not among the repository's sources. It runs
  \<open>_async_update_data\<close>; a returned snapshot replaces \<open>data\<close>, an update failure is
  recorded and leaves \<open>data\<close> as it was.
\<close>

definition async_refresh :: "coordinator \<Rightarrow> coordinator" where
  "async_refresh self =
     (case async_update_data self of
        Inr snapshot \<Rightarrow>
          self\<lparr>data := snapshot, last_update_success := True, last_exception := None\<rparr>
      | Inl err \<Rightarrow> self\<lparr>last_update_success := False, last_exception := Some err\<rparr>)"

section \<open>The sensor (sensor.py, TGTGSensor)\<close>

record sensor =
  item_id :: string
  store_name :: pyval

text \<open>Lines 168--172. The sensor reads the coordinator it is attached to; the model
  passes that coordinator to every method.\<close>

definition TGTGSensor_init :: "coordinator \<Rightarrow> string \<Rightarrow> pyexc + sensor" where
  "TGTGSensor_init coord ident =
     ebind (subscript (data coord) ident) (\<lambda>listing.
     ebind (subscript listing ''display_name'') (\<lambda>display_name.
       Inr \<lparr>item_id = ident, store_name = display_name\<rparr>))"

definition name :: "sensor \<Rightarrow> pyexc + string" where
  "name self = ebind (py_str (store_name self)) (\<lambda>s. Inr (''TGTG '' @ s))"

definition unique_id :: "sensor \<Rightarrow> string" where
  "unique_id self = ''tgtg_'' @ item_id self"

definition icon :: "sensor \<Rightarrow> string" where
  "icon self = ''mdi:storefront-outline''"

definition unit_of_measurement :: "sensor \<Rightarrow> string" where
  "unit_of_measurement self = ''pcs''"

text \<open>\<open>try: body  except (KeyError, TypeError): return fallback\<close>.\<close>

definition except_KeyError_TypeError :: "pyexc + 'a \<Rightarrow> 'a \<Rightarrow> pyexc + 'a" where
  "except_KeyError_TypeError body fallback =
     (case body of
        Inr x \<Rightarrow> Inr x
      | Inl (Exc c m) \<Rightarrow> if c = KeyError \<or> c = TypeError then Inr fallback else Inl (Exc c m))"

text \<open>Lines 194--200.\<close>

definition native_value :: "coordinator \<Rightarrow> sensor \<Rightarrow> pyexc + pyval" where
  "native_value coord self =
     except_KeyError_TypeError
       (ebind (subscript (data coord) (item_id self)) (\<lambda>listing.
          subscript listing ''items_available''))
       PNone"

subsection \<open>Attributes (lines 202--265)\<close>

type_synonym attrs = "string \<rightharpoonup> pyval"

text \<open>\<open>data[key] = value\<close> on the attribute dictionary.\<close>

definition assign :: "string \<Rightarrow> pyexc + pyval \<Rightarrow> attrs \<Rightarrow> pyexc + attrs" where
  "assign k r a = ebind r (\<lambda>v. Inr (a(k \<mapsto> v)))"

text \<open>Lines 217--224 and 226--233: the price text of \<open>item[field]\<close>.\<close>

definition price_text :: "pyval \<Rightarrow> string \<Rightarrow> pyexc + pyval" where
  "price_text item field =
     ebind (subscript item field) (\<lambda>price.
     ebind (subscript price ''minor_units'') (\<lambda>minor_units.
     ebind (py_int minor_units) (\<lambda>a.
     ebind (subscript price ''decimals'') (\<lambda>decimals.
     ebind (py_int decimals) (\<lambda>n.
     ebind (pow10 n) (\<lambda>d.
     ebind (py_truediv a d) (\<lambda>q.
     ebind (subscript price ''code'') (\<lambda>code.
     ebind (py_concat (float_repr q @ '' '') code) (\<lambda>text. Inr (PStr text))))))))))"

text \<open>Lines 213--215: the share link.\<close>

definition item_url :: "pyval \<Rightarrow> pyexc + pyval" where
  "item_url ident =
     ebind (py_str ident) (\<lambda>s. Inr (PStr (''https://share.toogoodtogo.com/item/'' @ s)))"

text \<open>Lines 236 and 238: \<open>item[field]["current_url"]\<close>.\<close>

definition picture_url :: "pyval \<Rightarrow> string \<Rightarrow> pyexc + pyval" where
  "picture_url item field = ebind (subscript item field) (\<lambda>pic. subscript pic ''current_url'')"

text \<open>Lines 211--238: the block under \<open>if "item" in tgtg_answer\<close>.\<close>

definition item_attributes :: "pyval \<Rightarrow> attrs \<Rightarrow> pyexc + attrs" where
  "item_attributes tgtg_answer a0 =
     ebind (subscript tgtg_answer ''item'') (\<lambda>item.
     ebind (contains ''item_id'' item) (\<lambda>has_id.
     ebind (if has_id
            then ebind (assign ATTR_ITEM_ID (subscript item ''item_id'') a0)
                   (assign ATTR_ITEM_URL (ebind (subscript item ''item_id'') item_url))
            else Inr a0) (\<lambda>a1.
     ebind (contains ''item_price'' item) (\<lambda>has_price.
     ebind (if has_price then assign ATTR_PRICE (price_text item ''item_price'') a1
            else Inr a1) (\<lambda>a2.
     ebind (contains ''item_value'' item) (\<lambda>has_value.
     ebind (if has_value then assign ATTR_VALUE (price_text item ''item_value'') a2
            else Inr a2) (\<lambda>a3.
     ebind (contains ''logo_picture'' item) (\<lambda>has_logo.
     ebind (if has_logo then assign ATTR_LOGO_URL (picture_url item ''logo_picture'') a3
            else Inr a3) (\<lambda>a4.
     ebind (contains ''cover_picture'' item) (\<lambda>has_cover.
       if has_cover then assign ATTR_COVER_URL (picture_url item ''cover_picture'') a4
       else Inr a4))))))))))"

text \<open>Lines 241--244: the block under \<open>if "pickup_interval" in tgtg_answer\<close>.\<close>

definition pickup_attributes :: "pyval \<Rightarrow> attrs \<Rightarrow> pyexc + attrs" where
  "pickup_attributes tgtg_answer a0 =
     ebind (subscript tgtg_answer ''pickup_interval'') (\<lambda>pickup_interval.
     ebind (contains ''start'' pickup_interval) (\<lambda>has_start.
     ebind (if has_start then assign ATTR_PICKUP_START (subscript pickup_interval ''start'') a0
            else Inr a0) (\<lambda>a1.
     ebind (contains ''end'' pickup_interval) (\<lambda>has_end.
       if has_end then assign ATTR_PICKUP_END (subscript pickup_interval ''end'') a1
       else Inr a1))))"

text \<open>Lines 209--246: the attributes taken from the listing.\<close>

definition listing_attributes :: "pyval \<Rightarrow> pyexc + attrs" where
  "listing_attributes tgtg_answer =
     ebind (contains ''item'' tgtg_answer) (\<lambda>has_item.
     ebind (if has_item then item_attributes tgtg_answer Map.empty else Inr Map.empty) (\<lambda>a1.
     ebind (contains ''pickup_interval'' tgtg_answer) (\<lambda>has_pickup.
     ebind (if has_pickup then pickup_attributes tgtg_answer a1 else Inr a1) (\<lambda>a2.
     ebind (contains ''sold_out_at'' tgtg_answer) (\<lambda>has_sold_out.
       if has_sold_out then assign ATTR_SOLDOUT_TIMESTAMP (subscript tgtg_answer ''sold_out_at'') a2
       else Inr a2)))))"

text \<open>
  Lines 251--259: one turn of the loop over the orders. The state is \<open>orders_placed\<close>,
  \<open>total_quantity_ordered\<close> and the attribute dictionary. \<open>str(self.item_id)\<close> is the
  identifier itself, a \<open>str\<close>, and a value equals it exactly when it is that text.
\<close>

definition order_step ::
  "string \<Rightarrow> pyval \<Rightarrow> int \<times> pyval \<times> attrs \<Rightarrow> pyexc + (int \<times> pyval \<times> attrs)" where
  "order_step ident order st =
     (case st of (orders_placed, total_quantity_ordered, a0) \<Rightarrow>
     ebind (contains ''item_id'' order) (\<lambda>has_id.
       if \<not> has_id then Inr st
       else
         ebind (subscript order ''item_id'') (\<lambda>order_item.
           if order_item \<noteq> PStr ident then Inr st
           else
             ebind (contains ''quantity'' order) (\<lambda>has_quantity.
             ebind (if has_quantity
                    then ebind (subscript order ''quantity'') (py_iadd total_quantity_ordered)
                    else Inr total_quantity_ordered) (\<lambda>total'.
             ebind (contains ''pickup_window_changed'' order) (\<lambda>has_changed.
             ebind (if has_changed
                    then assign ATTR_PICKUP_WINDOW_CHANGED
                           (subscript order ''pickup_window_changed'') a0
                    else Inr a0) (\<lambda>a1.
             ebind (contains ''cancel_until'' order) (\<lambda>has_cancel.
             ebind (if has_cancel
                    then assign ATTR_CANCEL_UNTIL (subscript order ''cancel_until'') a1
                    else Inr a1) (\<lambda>a2.
               Inr (orders_placed + 1, total', a2))))))))))"

fun orders_loop ::
  "string \<Rightarrow> pyval list \<Rightarrow> int \<times> pyval \<times> attrs \<Rightarrow> pyexc + (int \<times> pyval \<times> attrs)" where
  "orders_loop ident [] st = Inr st"
| "orders_loop ident (order # rest) st =
     ebind (order_step ident order st) (orders_loop ident rest)"

text \<open>Lines 206--263: the body of the \<open>try\<close> statement.\<close>

definition attributes_body :: "pyval \<Rightarrow> string \<Rightarrow> pyexc + attrs" where
  "attributes_body snapshot ident =
     ebind (subscript snapshot ident) (\<lambda>tgtg_answer.
     ebind (py_get snapshot ''orders'' (PList [])) (\<lambda>tgtg_orders.
     ebind (listing_attributes tgtg_answer) (\<lambda>a0.
     ebind (py_iter tgtg_orders) (\<lambda>orders.
     ebind (orders_loop ident orders (0, PInt 0, a0)) (\<lambda>st.
       case st of (orders_placed, total_quantity_ordered, a1) \<Rightarrow>
         let a2 = a1(ATTR_ORDERS_PLACED \<mapsto> PInt orders_placed)
         in Inr (if py_positive total_quantity_ordered
                 then a2(ATTR_TOTAL_QUANTITY_ORDERED \<mapsto> total_quantity_ordered)
                 else a2))))))"

definition extra_state_attributes :: "coordinator \<Rightarrow> sensor \<Rightarrow> pyexc + attrs" where
  "extra_state_attributes coord self =
     except_KeyError_TypeError (attributes_body (data coord) (item_id self)) Map.empty"

section \<open>The attributes, as specified\<close>

text \<open>
  The orders a sensor counts are those whose \<open>item_id\<close> is the sensor's identifier as text;
  the quantities it totals are their \<open>quantity\<close> fields, an order without the field
  counting for nothing.
\<close>

definition matching_orders :: "string \<Rightarrow> pyval list \<Rightarrow> pyval list" where
  "matching_orders ident orders =
     filter (\<lambda>order. subscript order ''item_id'' = Inr (PStr ident)) orders"

definition order_quantity :: "pyval \<Rightarrow> pyval list" where
  "order_quantity order = (case subscript order ''quantity'' of Inr q \<Rightarrow> [q] | Inl _ \<Rightarrow> [])"

definition quantities :: "string \<Rightarrow> pyval list \<Rightarrow> pyval list" where
  "quantities ident orders = concat (map order_quantity (matching_orders ident orders))"

text \<open>
  The sum of a list of quantities: of integers (a \<open>bool\<close> is the integer 0 or 1) it is
  their sum; of numbers with a \<open>float\<close> among them it is what Python's addition gives
  when they are added one by one to 0, and there is none when one of them is no number
  or an \<open>int\<close> is too large to be added to a \<open>float\<close>.
\<close>

definition is_integer :: "pyval \<Rightarrow> bool" where
  "is_integer q = (case q of PInt _ \<Rightarrow> True | PBool _ \<Rightarrow> True | _ \<Rightarrow> False)"

definition integer_value :: "pyval \<Rightarrow> int" where
  "integer_value q = (case q of PInt n \<Rightarrow> n | PBool b \<Rightarrow> (if b then 1 else 0) | _ \<Rightarrow> 0)"

fun python_sum :: "pyval \<Rightarrow> pyval list \<Rightarrow> pyexc + pyval" where
  "python_sum acc [] = Inr acc"
| "python_sum acc (q # qs) = ebind (py_iadd acc q) (\<lambda>acc'. python_sum acc' qs)"

definition sum_of_quantities :: "pyval list \<Rightarrow> pyval \<Rightarrow> bool" where
  "sum_of_quantities qs tot =
     (if list_all is_integer qs then tot = PInt (sum_list (map integer_value qs))
      else python_sum (PInt 0) qs = Inr tot)"

text \<open>The attribute names the listing part of the projection may set.\<close>

definition listing_keys :: "string set" where
  "listing_keys = {ATTR_ITEM_ID, ATTR_ITEM_URL, ATTR_PRICE, ATTR_VALUE, ATTR_LOGO_URL,
     ATTR_COVER_URL, ATTR_PICKUP_START, ATTR_PICKUP_END, ATTR_SOLDOUT_TIMESTAMP}"

section \<open>Example data\<close>

text \<open>A listing as the API returns it, with a price of 2.50 EUR.\<close>

definition euro :: "pyval \<Rightarrow> pyval" where
  "euro minor_units =
     PDict [(PStr ''code'', PStr ''EUR''), (PStr ''minor_units'', minor_units),
            (PStr ''decimals'', PInt 2)]"

definition bakery :: "pyval \<Rightarrow> pyval" where
  "bakery minor_units =
     PDict [(PStr ''item'', PDict [(PStr ''item_id'', PStr ''42''),
                                  (PStr ''item_price'', euro minor_units)]),
            (PStr ''display_name'', PStr ''Bakery X''),
            (PStr ''items_available'', PInt 3)]"

text \<open>A client that knows listing 42 only, and a coordinator after its first refresh.\<close>

definition client_of :: "pyval \<Rightarrow> tgtg_client" where
  "client_of listing =
     \<lparr>get_item = (\<lambda>ident. if ident = ''42'' then Inr listing else raise OtherError ''404''),
      get_favorites = Inr (PList [listing])\<rparr>"

definition refreshed :: "pyval \<Rightarrow> coordinator" where
  "refreshed listing = async_refresh (TGTGDataUpdateCoordinator_init (client_of listing) [''42''])"

text \<open>The same coordinator in a later cycle, when the API cannot be reached.\<close>

definition offline :: tgtg_client where
  "offline =
     \<lparr>get_item = (\<lambda>ident. raise OtherError ''connection lost''),
      get_favorites = raise OtherError ''connection lost''\<rparr>"

definition disconnected :: "pyval \<Rightarrow> coordinator" where
  "disconnected listing = (refreshed listing)\<lparr>tgtg_client := offline\<rparr>"

text \<open>A client whose favorites are the given entries.\<close>

definition favorites_client :: "pyval list \<Rightarrow> tgtg_client" where
  "favorites_client entries =
     \<lparr>get_item = (\<lambda>ident. raise OtherError ''404''), get_favorites = Inr (PList entries)\<rparr>"

text \<open>A listing whose payload carries the identifier 7.\<close>

definition relabelled :: pyval where
  "relabelled =
     PDict [(PStr ''item'', PDict [(PStr ''item_id'', PStr ''7'')]),
            (PStr ''display_name'', PStr ''Bakery X'')]"

text \<open>A listing without a display name.\<close>

definition nameless :: pyval where
  "nameless = PDict [(PStr ''items_available'', PInt 3)]"

definition sensor_42 :: sensor where
  "sensor_42 = \<lparr>item_id = ''42'', store_name = PStr ''Bakery X''\<rparr>"

text \<open>The orders of the specification's example, in a snapshot with listings 42 and 99.\<close>

definition example_orders :: pyval where
  "example_orders =
     PList [PDict [(PStr ''item_id'', PStr ''42''), (PStr ''quantity'', PInt 2)],
            PDict [(PStr ''item_id'', PStr ''42''), (PStr ''quantity'', PInt 1)],
            PDict [(PStr ''item_id'', PStr ''7''), (PStr ''quantity'', PInt 5)]]"

definition with_orders :: coordinator where
  "with_orders =
     \<lparr>tgtg_client = offline, items = [''42'', ''99''],
      data = PDict [(PStr ''orders'', example_orders), (PStr ''42'', nameless),
                    (PStr ''99'', nameless)],
      last_update_success = True, last_exception = None\<rparr>"

definition sensor_99 :: sensor where
  "sensor_99 = \<lparr>item_id = ''99'', store_name = PStr ''Bakery Y''\<rparr>"

text \<open>A coordinator that holds the given orders and the given listing 42, and an order
  whose quantity is text.\<close>

definition holding :: "pyval \<Rightarrow> pyval \<Rightarrow> coordinator" where
  "holding orders listing =
     \<lparr>tgtg_client = offline, items = [''42''],
      data = PDict [(PStr ''orders'', orders), (PStr ''42'', listing)],
      last_update_success = True, last_exception = None\<rparr>"

definition text_order :: pyval where
  "text_order = PList [PDict [(PStr ''item_id'', PStr ''42''), (PStr ''quantity'', PStr ''2'')]]"

text \<open>A client whose only listing has the identifier \<open>orders\<close>.\<close>

definition named_orders :: tgtg_client where
  "named_orders =
     \<lparr>get_item = (\<lambda>ident. if ident = ''orders'' then Inr nameless else raise OtherError ''404''),
      get_favorites = Inr (PList [])\<rparr>"

text \<open>A listing whose price has no fields, and the attributes of the 2.50 EUR listing.\<close>

definition unpriced :: pyval where
  "unpriced =
     PDict [(PStr ''item'', PDict [(PStr ''item_id'', PStr ''42''),
                                  (PStr ''item_price'', PDict [])]),
            (PStr ''display_name'', PStr ''Bakery X''),
            (PStr ''items_available'', PInt 3)]"

definition bakery_listing_attributes :: attrs where
  "bakery_listing_attributes =
     [ATTR_ITEM_ID \<mapsto> PStr ''42'',
      ATTR_ITEM_URL \<mapsto> PStr ''https://share.toogoodtogo.com/item/42'',
      ATTR_PRICE \<mapsto> PStr ''2.5 EUR'']"


section \<open>Basic facts\<close>

lemma ebind_Inl [simp]: "ebind (Inl e) f = Inl e"
  by (simp add: ebind_def)

lemma ebind_Inr [simp]: "ebind (Inr x) f = f x"
  by (simp add: ebind_def)

lemma ebind_raise [simp]: "ebind (raise c m) f = raise c m"
  by (simp add: raise_def)

lemma raise_neq_Inr [simp]: "raise c m \<noteq> Inr x" "Inr x \<noteq> raise c m"
  by (simp_all add: raise_def)

lemma ebind_eq_Inr: "ebind r f = Inr y \<longleftrightarrow> (\<exists>x. r = Inr x \<and> f x = Inr y)"
  by (cases r) simp_all

lemma ebind_InrE:
  assumes "ebind r f = Inr y"
  obtains x where "r = Inr x" and "f x = Inr y"
  using assms by (auto simp: ebind_eq_Inr)

lemma same_key_PStr [simp]: "same_key k (PStr x) \<longleftrightarrow> k = PStr x"
proof (cases k)
  case (PFloat f)
  then show ?thesis by (cases f) (simp_all add: same_key_def key_of_def)
qed (simp_all add: same_key_def key_of_def)

lemma same_key_PStr_left [simp]: "same_key (PStr x) k \<longleftrightarrow> k = PStr x"
  using same_key_PStr [of k x] by (auto simp: same_key_def)

lemma subscript_cases:
  "subscript v k =
     (case v of
        PDict kvs \<Rightarrow>
          (case dict_get kvs (PStr k) of None \<Rightarrow> Inl (Exc KeyError (str_repr k)) | Some x \<Rightarrow> Inr x)
      | PList xs \<Rightarrow> Inl (Exc TypeError ''list indices must be integers or slices, not str'')
      | PStr s \<Rightarrow> Inl (Exc TypeError (''string indices must be integers, not '' @ str_repr ''str''))
      | _ \<Rightarrow> Inl (Exc TypeError (str_repr (type_name v) @ '' object is not subscriptable'')))"
  by (simp add: subscript_def raise_def split: pyval.splits option.splits)

lemma subscript_Inr_iff:
  "subscript v k = Inr x \<longleftrightarrow> (\<exists>kvs. v = PDict kvs \<and> dict_get kvs (PStr k) = Some x)"
  by (auto simp: subscript_cases split: pyval.splits option.splits)

lemma subscript_raises: "subscript v k = Inl (Exc c m) \<Longrightarrow> c = KeyError \<or> c = TypeError"
  by (auto simp: subscript_cases split: pyval.splits option.splits)

lemma same_key_refl [simp]: "same_key k k"
  by (simp add: same_key_def)

lemma same_key_sym: "same_key a b \<Longrightarrow> same_key b a"
  by (simp add: same_key_def)

lemma same_key_trans: "same_key a b \<Longrightarrow> same_key b c \<Longrightarrow> same_key a c"
  by (simp add: same_key_def)

lemma dict_get_dict_set:
  "dict_get (dict_set kvs k v) k' = (if same_key k k' then Some v else dict_get kvs k')"
proof (induction kvs)
  case Nil
  show ?case by simp
next
  case (Cons p kvs)
  obtain a b where p: "p = (a, b)" by (cases p)
  show ?case
  proof (cases "same_key a k")
    case True
    then have "same_key a k' \<longleftrightarrow> same_key k k'"
      by (auto simp: same_key_def)
    with True p show ?thesis by simp
  next
    case False
    with p Cons.IH show ?thesis
      by (auto simp: same_key_def)
  qed
qed

lemma keys_dict_set_PStr:
  "fst ` set (dict_set kvs (PStr x) v) = insert (PStr x) (fst ` set kvs)"
proof (induction kvs)
  case Nil
  show ?case by simp
next
  case (Cons p kvs)
  obtain a b where p: "p = (a, b)" by (cases p)
  show ?case
  proof (cases "a = PStr x")
    case True
    with p show ?thesis by auto
  next
    case False
    with p have "fst ` set (dict_set (p # kvs) (PStr x) v)
        = insert a (fst ` set (dict_set kvs (PStr x) v))"
      by simp
    with Cons.IH p show ?thesis by auto
  qed
qed

lemma distinct_dict_set_PStr:
  "distinct (map fst kvs) \<Longrightarrow> distinct (map fst (dict_set kvs (PStr x) v))"
proof (induction kvs)
  case Nil
  show ?case by simp
next
  case (Cons p kvs)
  obtain a b where p: "p = (a, b)" by (cases p)
  show ?case
  proof (cases "a = PStr x")
    case True
    with p Cons.prems show ?thesis by simp
  next
    case False
    from Cons have "distinct (map fst (dict_set kvs (PStr x) v))" by simp
    moreover from Cons.prems p False
    have "a \<notin> set (map fst (dict_set kvs (PStr x) v))"
      by (simp add: keys_dict_set_PStr)
    ultimately show ?thesis using p False by simp
  qed
qed


lemma py_setitem_PStr [simp]: "py_setitem d (PStr k) v = Inr (dict_set d (PStr k) v)"
  by (simp add: py_setitem_def key_of_def)

lemmas refresh_defs =
  refreshed_def disconnected_def offline_def client_of_def TGTGDataUpdateCoordinator_init_def
  async_refresh_def async_update_data_def update_data_def fetch_data_def

section \<open>The sensor's state\<close>

text \<open>
  C9. Whatever the coordinator holds (\<open>None\<close> before the first successful cycle, a
  snapshot, or anything else), reading the state never raises: it is the listing's
  \<open>items_available\<close> when the snapshot is a dictionary that maps the sensor's identifier
  to a dictionary with that key, and \<open>None\<close> in every other case, in particular when the
  identifier or the key is missing.
\<close>

theorem native_value_known_or_None:
  "native_value coord self =
     (case data coord of
        PDict snapshot \<Rightarrow>
          (case dict_get snapshot (PStr (item_id self)) of
             Some (PDict listing) \<Rightarrow>
               (case dict_get listing (PStr ''items_available'') of
                  Some v \<Rightarrow> Inr v
                | None \<Rightarrow> Inr PNone)
           | _ \<Rightarrow> Inr PNone)
      | _ \<Rightarrow> Inr PNone)"
  by (simp add: native_value_def except_KeyError_TypeError_def subscript_cases
           split: pyval.splits option.splits)

section \<open>Constructing a sensor\<close>

text \<open>
  C1. The claim is that constructing a sensor never raises when the listing has no
  \<open>display_name\<close>. Line 172 subscripts the listing without a guard: for the snapshot the
  coordinator publishes when the API answers the request for listing 42 with
  \<open>{"items_available": 3}\<close>, the constructor raises \<open>KeyError('display_name')\<close>.
\<close>

theorem init_without_display_name_raises:
  "TGTGSensor_init (refreshed nameless) ''42'' = Inl (Exc KeyError (str_repr ''display_name''))"
  by (simp add: TGTGSensor_init_def nameless_def refresh_defs subscript_cases)

section \<open>A failed refresh\<close>

lemma fetch_items_raises:
  assumes "x \<in> set ids" and "get x = Inl e"
  shows "\<exists>y c m. y \<in> set ids \<and> get y = Inl (Exc c m) \<and> fetch_items get ids s = Inl (Exc c m)"
  using assms
proof (induction ids arbitrary: s)
  case Nil
  then show ?case by simp
next
  case (Cons a ids)
  show ?case
  proof (cases "get a")
    case (Inl e')
    obtain c m where "e' = Exc c m" by (cases e')
    with Inl show ?thesis by auto
  next
    case (Inr v)
    with Cons.prems have "x \<in> set ids" by auto
    from Cons.IH [OF this Cons.prems(2)] obtain y c m where
      "y \<in> set ids" "get y = Inl (Exc c m)"
      "fetch_items get ids (dict_set s (PStr a) v) = Inl (Exc c m)"
      by blast
    with Inr show ?thesis by auto
  qed
qed

text \<open>
  C2. When a fetch call of the cycle raises (a \<open>get_item\<close> call for one of the configured
  identifiers, or the \<open>get_favorites\<close> call under the favorites policy),
  \<open>_async_update_data\<close> returns no snapshot: it raises \<open>UpdateFailed\<close> whose text is
  \<open>Error communicating with TGTG API:\<close> followed by the text of a fetch call's error, and
  the refresh records the failure and leaves the published snapshot as it was.
\<close>

theorem failed_fetch_fails_cycle:
  assumes "(items self \<noteq> [[]] \<and> (\<exists>x \<in> set (items self). \<exists>e. get_item (tgtg_client self) x = Inl e))
    \<or> (items self = [[]] \<and> (\<exists>e. get_favorites (tgtg_client self) = Inl e))"
  shows "\<exists>c m.
    ((items self \<noteq> [[]] \<and> (\<exists>y \<in> set (items self). get_item (tgtg_client self) y = Inl (Exc c m)))
      \<or> (items self = [[]] \<and> get_favorites (tgtg_client self) = Inl (Exc c m)))
    \<and> async_update_data self
        = Inl (UpdateFailed (''Error communicating with TGTG API: '' @ m))
    \<and> last_exception (async_refresh self)
        = Some (UpdateFailed (''Error communicating with TGTG API: '' @ m))
    \<and> \<not> last_update_success (async_refresh self)
    \<and> data (async_refresh self) = data self"
  using assms
proof (elim disjE conjE bexE exE)
  fix x e
  assume ids: "items self \<noteq> [[]]" and x: "x \<in> set (items self)"
    and e: "get_item (tgtg_client self) x = Inl e"
  from fetch_items_raises [of x "items self" "get_item (tgtg_client self)" e, OF x e]
  obtain y c m where
    y: "y \<in> set (items self)" "get_item (tgtg_client self) y = Inl (Exc c m)"
    and f: "fetch_items (get_item (tgtg_client self)) (items self) [(PStr ''orders'', PStr [])]
              = Inl (Exc c m)"
    by blast
  from ids f have "async_update_data self
      = Inl (UpdateFailed (''Error communicating with TGTG API: '' @ m))"
    by (simp add: async_update_data_def update_data_def fetch_data_def)
  with ids y show ?thesis
    by (intro exI [of _ c] exI [of _ m]) (auto simp: async_refresh_def)
next
  fix e
  assume ids: "items self = [[]]" and e: "get_favorites (tgtg_client self) = Inl e"
  obtain c m where cm: "e = Exc c m" by (cases e)
  from ids e cm have "async_update_data self
      = Inl (UpdateFailed (''Error communicating with TGTG API: '' @ m))"
    by (simp add: async_update_data_def update_data_def fetch_data_def)
  with ids e cm show ?thesis
    by (intro exI [of _ c] exI [of _ m]) (auto simp: async_refresh_def)
qed

theorem failed_fetch_fails_cycle_witness:
  "(items (disconnected (bakery (PInt 250))) \<noteq> [[]]
      \<and> (\<exists>x \<in> set (items (disconnected (bakery (PInt 250)))).
            \<exists>e. get_item (tgtg_client (disconnected (bakery (PInt 250)))) x = Inl e))
   \<and> async_update_data (disconnected (bakery (PInt 250)))
       = Inl (UpdateFailed ''Error communicating with TGTG API: connection lost'')
   \<and> data (async_refresh (disconnected (bakery (PInt 250))))
       = PDict [(PStr ''orders'', PStr []), (PStr ''42'', bakery (PInt 250))]"
proof -
  let ?c = "disconnected (bakery (PInt 250))"
  have h: "items ?c \<noteq> [[]] \<and> (\<exists>x \<in> set (items ?c). \<exists>e. get_item (tgtg_client ?c) x = Inl e)"
    by (simp add: refresh_defs raise_def)
  have d: "data ?c = PDict [(PStr ''orders'', PStr []), (PStr ''42'', bakery (PInt 250))]"
    by (simp add: refresh_defs)
  from failed_fetch_fails_cycle [of ?c] h obtain c m where
    "(\<exists>y \<in> set (items ?c). get_item (tgtg_client ?c) y = Inl (Exc c m))"
    "async_update_data ?c = Inl (UpdateFailed (''Error communicating with TGTG API: '' @ m))"
    "data (async_refresh ?c) = data ?c"
    by blast
  moreover from this(1) have "m = ''connection lost''"
    by (simp add: refresh_defs raise_def)
  ultimately show ?thesis using h d by simp
qed

section \<open>Attributes of a malformed listing\<close>

lemma short_repr: "take 200 (str_repr ''abc'') = str_repr ''abc''"
  by (simp add: str_repr_def escape_char_def Let_def)

text \<open>
  C3. The claim is that the attribute projection never raises, however malformed the
  snapshot. The handler at line 264 catches \<open>KeyError\<close> and \<open>TypeError\<close> only: for a
  listing whose \<open>minor_units\<close> is the text \<open>abc\<close>, \<open>int()\<close> at line 219 raises \<open>ValueError\<close>,
  which leaves the property.
\<close>

theorem attributes_raise_ValueError:
  "extra_state_attributes (refreshed (bakery (PStr ''abc''))) sensor_42
     = Inl (Exc ValueError (''invalid literal for int() with base 10: '' @ str_repr ''abc''))"
  by (simp add: short_repr extra_state_attributes_def attributes_body_def refresh_defs subscript_cases
      sensor_42_def bakery_def euro_def py_get_def listing_attributes_def item_attributes_def
      contains_def assign_def item_url_def py_str_def ATTR_ITEM_ID_def ATTR_ITEM_URL_def
      price_text_def py_int_def str_int_def strip_def is_space_def is_digit_def
      invalid_literal_def except_KeyError_TypeError_def raise_def Let_def)

section \<open>The snapshot of a successful refresh\<close>

lemma fetch_items_keys:
  "fetch_items get ids s = Inr s' \<Longrightarrow> fst ` set s' = fst ` set s \<union> PStr ` set ids"
proof (induction ids arbitrary: s)
  case Nil
  then show ?case by simp
next
  case (Cons a ids)
  from Cons.prems obtain v where "get a = Inr v"
    and "fetch_items get ids (dict_set s (PStr a) v) = Inr s'"
    by (auto elim!: ebind_InrE)
  from Cons.IH [OF this(2)]
  have "fst ` set s' = insert (PStr a) (fst ` set s) \<union> PStr ` set ids"
    by (simp only: keys_dict_set_PStr)
  then show ?case by auto
qed

lemma fetch_items_distinct:
  "fetch_items get ids s = Inr s' \<Longrightarrow> distinct (map fst s) \<Longrightarrow> distinct (map fst s')"
proof (induction ids arbitrary: s)
  case Nil
  then show ?case by simp
next
  case (Cons a ids)
  from Cons.prems obtain v where "get a = Inr v"
    and "fetch_items get ids (dict_set s (PStr a) v) = Inr s'"
    by (auto elim!: ebind_InrE)
  from Cons.IH [OF this(2)] Cons.prems(2) show ?case
    by (simp add: distinct_dict_set_PStr)
qed

lemma fetch_items_other:
  "fetch_items get ids s = Inr s' \<Longrightarrow> k \<notin> PStr ` set ids \<Longrightarrow> dict_get s' k = dict_get s k"
proof (induction ids arbitrary: s)
  case Nil
  then show ?case by simp
next
  case (Cons a ids)
  from Cons.prems obtain v where "get a = Inr v"
    and r: "fetch_items get ids (dict_set s (PStr a) v) = Inr s'"
    by (auto elim!: ebind_InrE)
  from Cons.prems(2) have "k \<notin> PStr ` set ids" and "k \<noteq> PStr a" by auto
  with Cons.IH [OF r] show ?case
    by (simp add: dict_get_dict_set)
qed

lemma fetch_items_response:
  "fetch_items get ids s = Inr s' \<Longrightarrow> x \<in> set ids \<Longrightarrow>
     \<exists>v. get x = Inr v \<and> dict_get s' (PStr x) = Some v"
proof (induction ids arbitrary: s)
  case Nil
  then show ?case by simp
next
  case (Cons a ids)
  from Cons.prems obtain v where v: "get a = Inr v"
    and r: "fetch_items get ids (dict_set s (PStr a) v) = Inr s'"
    by (auto elim!: ebind_InrE)
  show ?case
  proof (cases "x \<in> set ids")
    case True
    from Cons.IH [OF r True] show ?thesis .
  next
    case False
    with Cons.prems(2) have xa: "x = a" by simp
    from False have "PStr x \<notin> PStr ` set ids" by auto
    from fetch_items_other [OF r this] xa v show ?thesis
      by (simp add: dict_get_dict_set)
  qed
qed


text \<open>
  C6. Under an explicit list of identifiers, the snapshot of a successful cycle is a
  dictionary whose keys are exactly the requested identifiers and \<open>orders\<close>, each once, and
  each requested identifier maps to the response \<open>get_item\<close> gave for that identifier,
  whatever identifier the payload itself carries.
\<close>

theorem explicit_items_snapshot:
  assumes "ids \<noteq> [[]]" and "update_data client ids = Inr snapshot"
  shows "\<exists>kvs. snapshot = PDict kvs
    \<and> set (map fst kvs) = PStr ` insert ''orders'' (set ids)
    \<and> distinct (map fst kvs)
    \<and> (\<forall>x \<in> set ids. \<exists>v. get_item client x = Inr v \<and> dict_get kvs (PStr x) = Some v)"
proof -
  from assms obtain kvs where s: "snapshot = PDict kvs"
    and f: "fetch_items (get_item client) ids [(PStr ''orders'', PStr [])] = Inr kvs"
    by (auto simp: update_data_def fetch_data_def split: sum.splits pyexc.splits)
  from fetch_items_keys [OF f] have "set (map fst kvs) = PStr ` insert ''orders'' (set ids)"
    by simp
  moreover from fetch_items_distinct [OF f] have "distinct (map fst kvs)"
    by simp
  moreover from fetch_items_response [OF f]
  have "\<forall>x \<in> set ids. \<exists>v. get_item client x = Inr v \<and> dict_get kvs (PStr x) = Some v"
    by blast
  ultimately show ?thesis using s by blast
qed

theorem explicit_items_snapshot_witness:
  "[''42''] \<noteq> [[]]
   \<and> update_data (client_of relabelled) [''42'']
       = Inr (PDict [(PStr ''orders'', PStr []), (PStr ''42'', relabelled)])
   \<and> (\<exists>kvs. PDict [(PStr ''orders'', PStr []), (PStr ''42'', relabelled)] = PDict kvs
        \<and> set (map fst kvs) = PStr ` insert ''orders'' (set [''42''])
        \<and> distinct (map fst kvs)
        \<and> (\<forall>x \<in> set [''42'']. \<exists>v. get_item (client_of relabelled) x = Inr v
               \<and> dict_get kvs (PStr x) = Some v))"
proof -
  have 1: "[''42''] \<noteq> [[]]" by simp
  have 2: "update_data (client_of relabelled) [''42'']
      = Inr (PDict [(PStr ''orders'', PStr []), (PStr ''42'', relabelled)])"
    by (simp add: refresh_defs)
  from explicit_items_snapshot [OF 1 2] 1 2 show ?thesis by blast
qed

lemma py_setitem_Inr_iff:
  "py_setitem d k v = Inr d' \<longleftrightarrow> key_of k \<noteq> None \<and> d' = dict_set d k v"
  by (auto simp: py_setitem_def)

lemma store_favorites_Cons_Inr:
  assumes "store_favorites (e # es) s = Inr s'"
  obtains k where "favorite_id e = Inr k" and "store_favorites es (dict_set s k e) = Inr s'"
  using assms by (auto elim!: ebind_InrE simp: py_setitem_Inr_iff)

lemma store_favorites_keeps:
  "store_favorites es s = Inr s' \<Longrightarrow> dict_get s k \<noteq> None \<Longrightarrow> dict_get s' k \<noteq> None"
proof (induction es arbitrary: s)
  case Nil
  then show ?case by simp
next
  case (Cons e es)
  from Cons.prems(1) obtain k' where "store_favorites es (dict_set s k' e) = Inr s'"
    by (rule store_favorites_Cons_Inr)
  from Cons.IH [OF this] Cons.prems(2) show ?case
    by (simp add: dict_get_dict_set)
qed

lemma store_favorites_unchanged:
  "store_favorites es s = Inr s' \<Longrightarrow>
   (\<forall>e \<in> set es. \<forall>k'. favorite_id e = Inr k' \<longrightarrow> \<not> same_key k' k) \<Longrightarrow>
   dict_get s' k = dict_get s k"
proof (induction es arbitrary: s)
  case Nil
  then show ?case by simp
next
  case (Cons e es)
  from Cons.prems(1) obtain k' where k': "favorite_id e = Inr k'"
    and r: "store_favorites es (dict_set s k' e) = Inr s'"
    by (rule store_favorites_Cons_Inr)
  from Cons.prems(2) k' have "\<not> same_key k' k" by simp
  moreover from Cons.prems(2)
  have "\<forall>e \<in> set es. \<forall>k'. favorite_id e = Inr k' \<longrightarrow> \<not> same_key k' k" by simp
  from Cons.IH [OF r this] have "dict_get s' k = dict_get (dict_set s k' e) k" .
  ultimately show ?case by (simp add: dict_get_dict_set)
qed

lemma store_favorites_entry:
  assumes "store_favorites (before @ e # after) s = Inr s'"
  shows "\<exists>k. favorite_id e = Inr k \<and>
           ((\<forall>e' \<in> set after. \<forall>k'. favorite_id e' = Inr k' \<longrightarrow> \<not> same_key k' k)
              \<longrightarrow> dict_get s' k = Some e)"
  using assms
proof (induction before arbitrary: s)
  case Nil
  then have "store_favorites (e # after) s = Inr s'"
    by (simp only: append_Nil)
  then obtain k where k: "favorite_id e = Inr k"
    and r: "store_favorites after (dict_set s k e) = Inr s'"
    by (rule store_favorites_Cons_Inr)
  show ?case
  proof (intro exI conjI impI)
    show "favorite_id e = Inr k" by (rule k)
    assume "\<forall>e' \<in> set after. \<forall>k'. favorite_id e' = Inr k' \<longrightarrow> \<not> same_key k' k"
    from store_favorites_unchanged [OF r this] show "dict_get s' k = Some e"
      by (simp add: dict_get_dict_set)
  qed
next
  case (Cons b before)
  from Cons.prems have "store_favorites (b # (before @ e # after)) s = Inr s'"
    by (simp only: append_Cons)
  then obtain k' where
    "store_favorites (before @ e # after) (dict_set s k' b) = Inr s'"
    by (rule store_favorites_Cons_Inr)
  from Cons.IH [OF this] show ?case .
qed

lemma store_favorites_present:
  "store_favorites es s = Inr s' \<Longrightarrow> e \<in> set es \<Longrightarrow>
     \<exists>k. favorite_id e = Inr k \<and> dict_get s' k \<noteq> None"
proof (induction es arbitrary: s)
  case Nil
  then show ?case by simp
next
  case (Cons a es)
  from Cons.prems(1) obtain k where k: "favorite_id a = Inr k"
    and r: "store_favorites es (dict_set s k a) = Inr s'"
    by (rule store_favorites_Cons_Inr)
  show ?case
  proof (cases "e = a")
    case True
    have "dict_get (dict_set s k a) k \<noteq> None" by (simp add: dict_get_dict_set)
    from store_favorites_keeps [OF r this] k True show ?thesis by blast
  next
    case False
    with Cons.prems(2) have "e \<in> set es" by simp
    from Cons.IH [OF r this] show ?thesis .
  qed
qed

lemma dict_get_key: "k \<in> fst ` set kvs \<Longrightarrow> dict_get kvs k \<noteq> None"
proof (induction kvs)
  case Nil
  then show ?case by simp
next
  case (Cons p kvs)
  obtain a b where p: "p = (a, b)" by (cases p)
  show ?case
  proof (cases "same_key a k")
    case True
    with p show ?thesis by simp
  next
    case False
    then have "k \<noteq> a" by auto
    with Cons.prems p have "k \<in> fst ` set kvs" by auto
    from Cons.IH [OF this] False p show ?thesis by simp
  qed
qed

lemma update_data_explicit:
  assumes "ids \<noteq> [[]]" and "update_data client ids = Inr snapshot"
  obtains kvs where "snapshot = PDict kvs"
    and "fetch_items (get_item client) ids [(PStr ''orders'', PStr [])] = Inr kvs"
  using assms by (auto simp: update_data_def fetch_data_def split: sum.splits pyexc.splits)

lemma update_data_favorites:
  assumes "update_data client [[]] = Inr snapshot"
  obtains favorites entries kvs where "get_favorites client = Inr favorites"
    and "py_iter favorites = Inr entries" and "snapshot = PDict kvs"
    and "store_favorites entries [(PStr ''orders'', PStr [])] = Inr kvs"
  using assms
  by (auto simp: update_data_def fetch_data_def ebind_eq_Inr split: sum.splits pyexc.splits)


text \<open>
  C8. The claim is that every snapshot of a successful cycle has the key \<open>orders\<close>, set to
  the fixed empty placeholder, besides one key per listing. When a listing is itself
  configured under the identifier \<open>orders\<close>, line 139 stores the placeholder and line 149
  then stores the listing under the same key: the snapshot has the key, but its value is
  the listing.
\<close>

theorem listing_named_orders_counterexample:
  "update_data named_orders [''orders''] = Inr (PDict [(PStr ''orders'', nameless)])
   \<and> subscript (PDict [(PStr ''orders'', nameless)]) ''orders'' = Inr nameless
   \<and> nameless \<noteq> PStr []"
  by (simp add: refresh_defs named_orders_def nameless_def subscript_cases)

text \<open>
  C8, amended. The snapshot of a successful cycle has the key \<open>orders\<close>. Under an explicit
  list it has every configured identifier as a key; under the favorites policy it has the
  \<open>item.item_id\<close> of every favorite as a key. The value of \<open>orders\<close> is the empty placeholder
  stored at line 139 whenever no listing is itself identified as \<open>orders\<close>.
\<close>

theorem snapshot_has_orders_and_listings:
  assumes "update_data client ids = Inr snapshot"
  shows "contains ''orders'' snapshot = Inr True
    \<and> (ids \<noteq> [[]] \<longrightarrow>
         (\<forall>x \<in> set ids. contains x snapshot = Inr True)
         \<and> (''orders'' \<notin> set ids \<longrightarrow> subscript snapshot ''orders'' = Inr (PStr [])))
    \<and> (ids = [[]] \<longrightarrow>
         (\<exists>favorites entries kvs.
            get_favorites client = Inr favorites \<and> py_iter favorites = Inr entries
            \<and> snapshot = PDict kvs
            \<and> (\<forall>e \<in> set entries. \<exists>k. favorite_id e = Inr k \<and> dict_get kvs k \<noteq> None)
            \<and> ((\<forall>e \<in> set entries. favorite_id e \<noteq> Inr (PStr ''orders''))
                 \<longrightarrow> subscript snapshot ''orders'' = Inr (PStr []))))"
proof (cases "ids = [[]]")
  case False
  from False assms obtain kvs where s: "snapshot = PDict kvs"
    and f: "fetch_items (get_item client) ids [(PStr ''orders'', PStr [])] = Inr kvs"
    by (rule update_data_explicit)
  from fetch_items_keys [OF f] have keys: "fst ` set kvs = PStr ` insert ''orders'' (set ids)"
    by simp
  have present: "dict_get kvs k \<noteq> None" if "k \<in> fst ` set kvs" for k
    using that by (rule dict_get_key)
  have "contains ''orders'' snapshot = Inr True"
    using s keys present [of "PStr ''orders''"] by (simp add: contains_def)
  moreover have "\<forall>x \<in> set ids. contains x snapshot = Inr True"
    using s keys present by (simp add: contains_def)
  moreover have "subscript snapshot ''orders'' = Inr (PStr [])" if "''orders'' \<notin> set ids"
  proof -
    from that have "PStr ''orders'' \<notin> PStr ` set ids" by auto
    from fetch_items_other [OF f this] s show ?thesis
      by (simp add: subscript_cases)
  qed
  ultimately show ?thesis using False by simp
next
  case True
  from True assms obtain favorites entries kvs where g: "get_favorites client = Inr favorites"
    "py_iter favorites = Inr entries" "snapshot = PDict kvs"
    and s: "store_favorites entries [(PStr ''orders'', PStr [])] = Inr kvs"
    by (auto elim: update_data_favorites)
  have "dict_get [(PStr ''orders'', PStr [])] (PStr ''orders'') \<noteq> None" by simp
  from store_favorites_keeps [OF s this] g
  have 1: "contains ''orders'' snapshot = Inr True"
    by (simp add: contains_def)
  have 2: "\<forall>e \<in> set entries. \<exists>k. favorite_id e = Inr k \<and> dict_get kvs k \<noteq> None"
    using store_favorites_present [OF s] by blast
  have 3: "subscript snapshot ''orders'' = Inr (PStr [])"
    if "\<forall>e \<in> set entries. favorite_id e \<noteq> Inr (PStr ''orders'')"
  proof -
    from that
    have "\<forall>e \<in> set entries. \<forall>k'. favorite_id e = Inr k' \<longrightarrow> \<not> same_key k' (PStr ''orders'')"
      by auto
    from store_favorites_unchanged [OF s this] g show ?thesis
      by (simp add: subscript_cases)
  qed
  from 1 2 3 g True show ?thesis by blast
qed

theorem snapshot_has_orders_and_listings_witness:
  "update_data (client_of (bakery (PInt 250))) [''42'']
     = Inr (PDict [(PStr ''orders'', PStr []), (PStr ''42'', bakery (PInt 250))])
   \<and> contains ''orders'' (PDict [(PStr ''orders'', PStr []), (PStr ''42'', bakery (PInt 250))])
       = Inr True
   \<and> contains ''42'' (PDict [(PStr ''orders'', PStr []), (PStr ''42'', bakery (PInt 250))])
       = Inr True
   \<and> subscript (PDict [(PStr ''orders'', PStr []), (PStr ''42'', bakery (PInt 250))]) ''orders''
       = Inr (PStr [])"
proof -
  have 1: "update_data (client_of (bakery (PInt 250))) [''42'']
     = Inr (PDict [(PStr ''orders'', PStr []), (PStr ''42'', bakery (PInt 250))])"
    by (simp add: refresh_defs)
  from snapshot_has_orders_and_listings [OF 1] 1 show ?thesis by simp
qed

text \<open>
  C7. The claim is that, under the favorites policy, the snapshot maps the \<open>item.item_id\<close>
  of every favorite to that favorite's payload. The loop at lines 156--158 stores the
  favorites in order under their identifiers, so of two favorites that carry the same
  identifier the later one replaces the earlier one.
\<close>

theorem favorites_same_id_counterexample:
  "get_favorites (favorites_client [bakery (PInt 250), bakery (PInt 300)])
     = Inr (PList [bakery (PInt 250), bakery (PInt 300)])
   \<and> favorite_id (bakery (PInt 250)) = Inr (PStr ''42'')
   \<and> update_data (favorites_client [bakery (PInt 250), bakery (PInt 300)]) [[]]
       = Inr (PDict [(PStr ''orders'', PStr []), (PStr ''42'', bakery (PInt 300))])
   \<and> subscript (PDict [(PStr ''orders'', PStr []), (PStr ''42'', bakery (PInt 300))]) ''42''
       \<noteq> Inr (bakery (PInt 250))"
  by (simp add: favorites_client_def update_data_def fetch_data_def py_iter_def favorite_id_def
        bakery_def euro_def subscript_cases)

text \<open>
  C7, amended. Under the favorites policy the snapshot of a successful cycle maps the
  \<open>item.item_id\<close> of a favorite to that favorite's full payload whenever no later favorite
  of the response carries the same identifier (so it maps every identifier to the payload
  of the last favorite that carries it).
\<close>

theorem favorites_keyed_by_item_id:
  assumes "update_data client [[]] = Inr snapshot"
  shows "\<exists>favorites entries kvs.
    get_favorites client = Inr favorites \<and> py_iter favorites = Inr entries
    \<and> snapshot = PDict kvs
    \<and> (\<forall>before e after. entries = before @ e # after \<longrightarrow>
          (\<exists>k. favorite_id e = Inr k \<and>
             ((\<forall>e' \<in> set after. \<forall>k'. favorite_id e' = Inr k' \<longrightarrow> \<not> same_key k' k)
                \<longrightarrow> dict_get kvs k = Some e)))"
proof -
  from assms obtain favorites entries kvs where f: "get_favorites client = Inr favorites"
    "py_iter favorites = Inr entries" "snapshot = PDict kvs"
    and s: "store_favorites entries [(PStr ''orders'', PStr [])] = Inr kvs"
    by (rule update_data_favorites)
  have "\<forall>before e after. entries = before @ e # after \<longrightarrow>
          (\<exists>k. favorite_id e = Inr k \<and>
             ((\<forall>e' \<in> set after. \<forall>k'. favorite_id e' = Inr k' \<longrightarrow> \<not> same_key k' k)
                \<longrightarrow> dict_get kvs k = Some e))"
    using s store_favorites_entry by blast
  with f show ?thesis by blast
qed


theorem favorites_keyed_by_item_id_witness:
  "update_data (favorites_client [bakery (PInt 250), relabelled]) [[]]
     = Inr (PDict [(PStr ''orders'', PStr []), (PStr ''42'', bakery (PInt 250)),
                   (PStr ''7'', relabelled)])
   \<and> favorite_id (bakery (PInt 250)) = Inr (PStr ''42'')
   \<and> dict_get [(PStr ''orders'', PStr []), (PStr ''42'', bakery (PInt 250)),
                 (PStr ''7'', relabelled)] (PStr ''42'')
       = Some (bakery (PInt 250))"
proof -
  let ?es = "[bakery (PInt 250), relabelled]"
  have 1: "update_data (favorites_client ?es) [[]]
     = Inr (PDict [(PStr ''orders'', PStr []), (PStr ''42'', bakery (PInt 250)),
                   (PStr ''7'', relabelled)])"
    by (simp add: favorites_client_def update_data_def fetch_data_def py_iter_def
          favorite_id_def bakery_def relabelled_def subscript_cases)
  have 2: "favorite_id (bakery (PInt 250)) = Inr (PStr ''42'')"
    by (simp add: favorite_id_def bakery_def subscript_cases)
  have 3: "favorite_id relabelled = Inr (PStr ''7'')"
    by (simp add: favorite_id_def relabelled_def subscript_cases)
  from favorites_keyed_by_item_id [OF 1] obtain kvs where
    k: "PDict [(PStr ''orders'', PStr []), (PStr ''42'', bakery (PInt 250)),
               (PStr ''7'', relabelled)] = PDict kvs"
    and e: "\<forall>before e after. ?es = before @ e # after \<longrightarrow>
          (\<exists>k. favorite_id e = Inr k \<and>
             ((\<forall>e' \<in> set after. \<forall>k'. favorite_id e' = Inr k' \<longrightarrow> \<not> same_key k' k)
                \<longrightarrow> dict_get kvs k = Some e))"
    by (auto simp: favorites_client_def py_iter_def)
  from e have "\<exists>k. favorite_id (bakery (PInt 250)) = Inr k \<and>
             ((\<forall>e' \<in> set [relabelled]. \<forall>k'. favorite_id e' = Inr k' \<longrightarrow> \<not> same_key k' k)
                \<longrightarrow> dict_get kvs k = Some (bakery (PInt 250)))"
    by (metis append_Nil)
  with 2 3 have "dict_get kvs (PStr ''42'') = Some (bakery (PInt 250))"
    by simp
  with k 1 2 show ?thesis by simp
qed

section \<open>The attributes of a listing\<close>

lemmas attr_defs =
  ATTR_ITEM_ID_def ATTR_ITEM_URL_def ATTR_PRICE_def ATTR_VALUE_def ATTR_PICKUP_START_def
  ATTR_PICKUP_END_def ATTR_SOLDOUT_TIMESTAMP_def ATTR_ORDERS_PLACED_def
  ATTR_TOTAL_QUANTITY_ORDERED_def ATTR_PICKUP_WINDOW_CHANGED_def ATTR_CANCEL_UNTIL_def
  ATTR_LOGO_URL_def ATTR_COVER_URL_def

lemma assign_Inr_iff: "assign k r a = Inr a' \<longleftrightarrow> (\<exists>v. r = Inr v \<and> a' = a(k \<mapsto> v))"
  by (auto simp: assign_def ebind_eq_Inr)

lemma subscript_contains: "subscript v k = Inr x \<Longrightarrow> contains k v = Inr True"
  by (auto simp: subscript_Inr_iff contains_def)

lemma contains_PDict: "contains k (PDict f) = Inr (dict_get f (PStr k) \<noteq> None)"
  by (simp add: contains_def)

lemma contains_False_subscript: "contains k v = Inr False \<Longrightarrow> subscript v k \<noteq> Inr x"
  by (auto dest: subscript_contains)

lemma item_attributes_frame:
  "item_attributes l a0 = Inr a' \<Longrightarrow> k \<notin> listing_keys \<Longrightarrow> a' k = a0 k"
  unfolding item_attributes_def listing_keys_def
  by (auto elim!: ebind_InrE simp: assign_Inr_iff split: if_splits)

lemma pickup_attributes_frame:
  "pickup_attributes l a0 = Inr a' \<Longrightarrow> k \<notin> {ATTR_PICKUP_START, ATTR_PICKUP_END} \<Longrightarrow> a' k = a0 k"
  unfolding pickup_attributes_def
  by (auto elim!: ebind_InrE simp: assign_Inr_iff split: if_splits)

lemma listing_attributes_steps:
  assumes "listing_attributes l = Inr a"
  obtains b1 a1 b2 a2 b3 where
    "contains ''item'' l = Inr b1"
    "(if b1 then item_attributes l Map.empty else Inr Map.empty) = Inr a1"
    "contains ''pickup_interval'' l = Inr b2"
    "(if b2 then pickup_attributes l a1 else Inr a1) = Inr a2"
    "contains ''sold_out_at'' l = Inr b3"
    "(if b3 then assign ATTR_SOLDOUT_TIMESTAMP (subscript l ''sold_out_at'') a2 else Inr a2) = Inr a"
  using assms unfolding listing_attributes_def
  by (elim ebind_InrE) blast

lemma listing_attributes_dom:
  assumes "listing_attributes l = Inr a" and "k \<notin> listing_keys"
  shows "a k = None"
proof -
  from assms(2) have k: "k \<notin> {ATTR_PICKUP_START, ATTR_PICKUP_END}" "k \<noteq> ATTR_SOLDOUT_TIMESTAMP"
    by (auto simp: listing_keys_def)
  from assms(1) obtain b1 a1 b2 a2 b3 where
    1: "(if b1 then item_attributes l Map.empty else Inr Map.empty) = Inr a1"
    and 2: "(if b2 then pickup_attributes l a1 else Inr a1) = Inr a2"
    and 3: "(if b3 then assign ATTR_SOLDOUT_TIMESTAMP (subscript l ''sold_out_at'') a2 else Inr a2)
              = Inr a"
    by (rule listing_attributes_steps)
  from 1 assms(2) have "a1 k = None"
    by (auto dest: item_attributes_frame split: if_splits)
  with 2 k(1) have "a2 k = None"
    by (auto dest: pickup_attributes_frame split: if_splits)
  with 3 k(2) show ?thesis
    by (auto simp: assign_Inr_iff split: if_splits)
qed

lemma order_keys_not_listing_keys:
  "ATTR_ORDERS_PLACED \<notin> listing_keys" "ATTR_TOTAL_QUANTITY_ORDERED \<notin> listing_keys"
  "ATTR_PICKUP_WINDOW_CHANGED \<notin> listing_keys" "ATTR_CANCEL_UNTIL \<notin> listing_keys"
  by (simp_all add: listing_keys_def attr_defs)




section \<open>The loop over the orders\<close>

lemma order_step_other:
  assumes "order = PDict f" and "subscript order ''item_id'' \<noteq> Inr (PStr ident)"
  shows "order_step ident order st = Inr st"
  using assms unfolding order_step_def
  by (cases st; cases "dict_get f (PStr ''item_id'')") (auto simp: contains_PDict subscript_cases)

lemma order_step_counted:
  assumes f: "order = PDict f" and m: "subscript order ''item_id'' = Inr (PStr ident)"
    and s: "python_sum t (order_quantity order) = Inr t'"
  shows "\<exists>a'. order_step ident order (n, t, a) = Inr (n + 1, t', a')
    \<and> (\<forall>k. k \<notin> {ATTR_PICKUP_WINDOW_CHANGED, ATTR_CANCEL_UNTIL} \<longrightarrow> a' k = a k)"
proof -
  from m have c: "contains ''item_id'' order = Inr True" by (rule subscript_contains)
  have tot: "(if dict_get f (PStr ''quantity'') \<noteq> None
              then ebind (subscript order ''quantity'') (py_iadd t)
              else Inr t) = Inr t'"
  proof (cases "dict_get f (PStr ''quantity'')")
    case None
    with f s show ?thesis by (simp add: order_quantity_def subscript_cases raise_def)
  next
    case (Some v)
    with f have "subscript order ''quantity'' = Inr v" by (simp add: subscript_cases)
    with s Some show ?thesis by (auto simp: order_quantity_def elim!: ebind_InrE)
  qed
  let ?a1 = "case dict_get f (PStr ''pickup_window_changed'') of None \<Rightarrow> a
      | Some v \<Rightarrow> a(ATTR_PICKUP_WINDOW_CHANGED \<mapsto> v)"
  let ?a2 = "case dict_get f (PStr ''cancel_until'') of None \<Rightarrow> ?a1
      | Some v \<Rightarrow> ?a1(ATTR_CANCEL_UNTIL \<mapsto> v)"
  have "order_step ident order (n, t, a) = Inr (n + 1, t', ?a2)"
    using c m tot f unfolding order_step_def
    by (auto simp: contains_PDict subscript_cases assign_def split: option.splits)
  moreover have "\<forall>k. k \<notin> {ATTR_PICKUP_WINDOW_CHANGED, ATTR_CANCEL_UNTIL} \<longrightarrow> ?a2 k = a k"
    by (auto split: option.splits)
  ultimately show ?thesis by blast
qed

lemma python_sum_append:
  "python_sum t (xs @ ys) = ebind (python_sum t xs) (\<lambda>t'. python_sum t' ys)"
proof (induction xs arbitrary: t)
  case Nil
  show ?case by simp
next
  case (Cons x xs)
  show ?case by (cases "py_iadd t x") (simp_all add: Cons.IH)
qed

lemma orders_loop_total:
  assumes "\<forall>order \<in> set orders. \<exists>f. order = PDict f"
    and "python_sum t (quantities ident orders) = Inr tot"
  shows "\<exists>a'. orders_loop ident orders (n, t, a)
        = Inr (n + int (length (matching_orders ident orders)), tot, a')
    \<and> (\<forall>k. k \<notin> {ATTR_PICKUP_WINDOW_CHANGED, ATTR_CANCEL_UNTIL} \<longrightarrow> a' k = a k)"
  using assms
proof (induction orders arbitrary: n t a)
  case Nil
  then show ?case by (simp add: matching_orders_def quantities_def)
next
  case (Cons order orders)
  from Cons.prems(1) obtain f where f: "order = PDict f" by auto
  from Cons.prems(1) have rest: "\<forall>order \<in> set orders. \<exists>f. order = PDict f" by simp
  show ?case
  proof (cases "subscript order ''item_id'' = Inr (PStr ident)")
    case False
    then have mo: "matching_orders ident (order # orders) = matching_orders ident orders"
      by (simp add: matching_orders_def)
    with Cons.prems(2) have "python_sum t (quantities ident orders) = Inr tot"
      by (simp add: quantities_def)
    from Cons.IH [OF rest this, of n a] order_step_other [OF f False] mo
    show ?thesis by simp
  next
    case True
    then have mo: "matching_orders ident (order # orders) = order # matching_orders ident orders"
      by (simp add: matching_orders_def)
    with Cons.prems(2)
    have "ebind (python_sum t (order_quantity order))
            (\<lambda>t'. python_sum t' (quantities ident orders)) = Inr tot"
      by (simp add: quantities_def python_sum_append)
    then obtain t1 where 1: "python_sum t (order_quantity order) = Inr t1"
      and 2: "python_sum t1 (quantities ident orders) = Inr tot"
      by (auto elim!: ebind_InrE)
    from order_step_counted [OF f True 1] obtain a1 where
      s: "order_step ident order (n, t, a) = Inr (n + 1, t1, a1)"
      and fr: "\<forall>k. k \<notin> {ATTR_PICKUP_WINDOW_CHANGED, ATTR_CANCEL_UNTIL} \<longrightarrow> a1 k = a k"
      by blast
    from Cons.IH [OF rest 2, of "n + 1" a1] obtain a' where
      "orders_loop ident orders (n + 1, t1, a1)
        = Inr (n + 1 + int (length (matching_orders ident orders)), tot, a')"
      and "\<forall>k. k \<notin> {ATTR_PICKUP_WINDOW_CHANGED, ATTR_CANCEL_UNTIL} \<longrightarrow> a' k = a1 k"
      by blast
    with s fr mo show ?thesis by (simp add: add.assoc)
  qed
qed

lemma python_sum_integers:
  assumes "\<forall>q \<in> set qs. is_integer q"
  shows "python_sum (PInt t) qs = Inr (PInt (t + sum_list (map integer_value qs)))"
  using assms
proof (induction qs arbitrary: t)
  case Nil
  show ?case by simp
next
  case (Cons q qs)
  from Cons.prems have "is_integer q" by simp
  then have "py_iadd (PInt t) q = Inr (PInt (t + integer_value q))"
    by (auto simp: is_integer_def integer_value_def py_iadd_def split: pyval.splits)
  with Cons show ?case by (simp add: add.assoc)
qed



lemma attributes_body_steps:
  assumes "attributes_body snapshot ident = Inr a"
  obtains tgtg_answer tgtg_orders a0 orders n tot a1 where
    "subscript snapshot ident = Inr tgtg_answer"
    "py_get snapshot ''orders'' (PList []) = Inr tgtg_orders"
    "listing_attributes tgtg_answer = Inr a0"
    "py_iter tgtg_orders = Inr orders"
    "orders_loop ident orders (0, PInt 0, a0) = Inr (n, tot, a1)"
    "a = (if py_positive tot
          then (a1(ATTR_ORDERS_PLACED \<mapsto> PInt n))(ATTR_TOTAL_QUANTITY_ORDERED \<mapsto> tot)
          else a1(ATTR_ORDERS_PLACED \<mapsto> PInt n))"
  using assms unfolding attributes_body_def
  by (auto elim!: ebind_InrE simp: Let_def split: prod.splits)

lemma attributes_body_nonempty: "attributes_body snapshot ident = Inr a \<Longrightarrow> a \<noteq> Map.empty"
  by (erule attributes_body_steps) auto




text \<open>
  C5. The claim is that for every orders sequence the sensor reports the number of matching
  orders and, when positive, the sum of their quantities. The loop runs inside the
  \<open>try\<close> statement of the whole projection: with the orders of the specification's
  example and a listing whose \<open>item_price\<close> has no fields, or with one order whose quantity
  is text, the projection is the empty fallback of line 265 and reports no
  \<open>orders_placed\<close>.
\<close>

theorem malformed_orders_counterexample:
  "extra_state_attributes (holding example_orders unpriced) sensor_42 = Inr Map.empty
   \<and> length (matching_orders ''42''
        [PDict [(PStr ''item_id'', PStr ''42''), (PStr ''quantity'', PInt 2)],
         PDict [(PStr ''item_id'', PStr ''42''), (PStr ''quantity'', PInt 1)],
         PDict [(PStr ''item_id'', PStr ''7''), (PStr ''quantity'', PInt 5)]]) = 2
   \<and> extra_state_attributes (holding text_order nameless) sensor_42 = Inr Map.empty
   \<and> Map.empty ATTR_ORDERS_PLACED = None"
  by (simp add: extra_state_attributes_def attributes_body_def holding_def
      subscript_cases sensor_42_def unpriced_def nameless_def example_orders_def text_order_def
      py_get_def listing_attributes_def matching_orders_def
      item_attributes_def contains_def assign_def item_url_def py_str_def price_text_def
      py_iter_def order_step_def py_iadd_def type_name_def
      except_KeyError_TypeError_def raise_def)

text \<open>
  C5, amended. When the snapshot's \<open>orders\<close> entry is a list of dictionaries, the listing
  part of the projection (lines 209--246) derives its attributes without error, and the
  quantities of the orders whose \<open>item_id\<close> is the sensor's identifier have a sum, then
  the projection succeeds, \<open>orders_placed\<close> is the number of those orders, and
  \<open>total_quantity_ordered\<close> is present exactly when the sum is greater than 0, and then is
  that sum.
\<close>

theorem orders_counted_and_summed:
  assumes "subscript (data coord) ''orders'' = Inr (PList orders)"
    and "\<forall>order \<in> set orders. \<exists>fields. order = PDict fields"
    and "subscript (data coord) (item_id self) = Inr listing"
    and "listing_attributes listing = Inr a0"
    and "sum_of_quantities (quantities (item_id self) orders) tot"
  shows "\<exists>a. extra_state_attributes coord self = Inr a
    \<and> a ATTR_ORDERS_PLACED = Some (PInt (int (length (matching_orders (item_id self) orders))))
    \<and> a ATTR_TOTAL_QUANTITY_ORDERED = (if py_positive tot then Some tot else None)
    \<and> (\<forall>n. tot = PInt n \<longrightarrow>
          a ATTR_TOTAL_QUANTITY_ORDERED = (if 0 < n then Some (PInt n) else None))"
proof -
  let ?ident = "item_id self"
  from assms(5) have s: "python_sum (PInt 0) (quantities ?ident orders) = Inr tot"
    using python_sum_integers [of "quantities ?ident orders" 0]
    by (auto simp: sum_of_quantities_def list_all_iff split: if_splits)
  from assms(1) have g: "py_get (data coord) ''orders'' (PList []) = Inr (PList orders)"
    by (auto simp: subscript_Inr_iff py_get_def)
  from orders_loop_total [OF assms(2) s, of 0 a0] obtain a1 where
    o: "orders_loop ?ident orders (0, PInt 0, a0)
        = Inr (int (length (matching_orders ?ident orders)), tot, a1)"
    and fr: "\<forall>k. k \<notin> {ATTR_PICKUP_WINDOW_CHANGED, ATTR_CANCEL_UNTIL} \<longrightarrow> a1 k = a0 k"
    by auto
  let ?n = "int (length (matching_orders ?ident orders))"
  let ?a = "if py_positive tot
          then (a1(ATTR_ORDERS_PLACED \<mapsto> PInt ?n))(ATTR_TOTAL_QUANTITY_ORDERED \<mapsto> tot)
          else a1(ATTR_ORDERS_PLACED \<mapsto> PInt ?n)"
  have "attributes_body (data coord) ?ident = Inr ?a"
    using assms(3,4) g o by (simp add: attributes_body_def py_iter_def)
  then have "extra_state_attributes coord self = Inr ?a"
    by (simp add: extra_state_attributes_def except_KeyError_TypeError_def)
  moreover from fr have "a1 ATTR_TOTAL_QUANTITY_ORDERED = a0 ATTR_TOTAL_QUANTITY_ORDERED"
    by (simp add: attr_defs)
  with listing_attributes_dom [OF assms(4) order_keys_not_listing_keys(2)]
  have "a1 ATTR_TOTAL_QUANTITY_ORDERED = None" by simp
  then have "?a ATTR_ORDERS_PLACED = Some (PInt ?n)"
    "?a ATTR_TOTAL_QUANTITY_ORDERED = (if py_positive tot then Some tot else None)"
    "\<forall>n. tot = PInt n \<longrightarrow>
       ?a ATTR_TOTAL_QUANTITY_ORDERED = (if 0 < n then Some (PInt n) else None)"
    by (simp_all add: attr_defs py_positive_def)
  ultimately show ?thesis by blast
qed

theorem orders_counted_and_summed_witness:
  "(\<exists>a. extra_state_attributes with_orders sensor_42 = Inr a
        \<and> a ATTR_ORDERS_PLACED = Some (PInt 2) \<and> a ATTR_TOTAL_QUANTITY_ORDERED = Some (PInt 3))
   \<and> (\<exists>a. extra_state_attributes with_orders sensor_99 = Inr a
        \<and> a ATTR_ORDERS_PLACED = Some (PInt 0) \<and> a ATTR_TOTAL_QUANTITY_ORDERED = None)"
proof -
  let ?os = "[PDict [(PStr ''item_id'', PStr ''42''), (PStr ''quantity'', PInt 2)],
            PDict [(PStr ''item_id'', PStr ''42''), (PStr ''quantity'', PInt 1)],
            PDict [(PStr ''item_id'', PStr ''7''), (PStr ''quantity'', PInt 5)]]"
  have o: "subscript (data with_orders) ''orders'' = Inr (PList ?os)"
    by (simp add: with_orders_def example_orders_def subscript_cases)
  have d: "\<forall>order \<in> set ?os. \<exists>fields. order = PDict fields"
    by simp
  have l: "subscript (data with_orders) (item_id sensor_42) = Inr nameless"
    "subscript (data with_orders) (item_id sensor_99) = Inr nameless"
    by (simp_all add: with_orders_def sensor_42_def sensor_99_def subscript_cases)
  have n: "listing_attributes nameless = Inr Map.empty"
    by (simp add: listing_attributes_def nameless_def contains_def)
  have m42: "matching_orders ''42'' ?os = take 2 ?os" and m99: "matching_orders ''99'' ?os = []"
    by (simp_all add: matching_orders_def subscript_cases)
  have q42: "quantities (item_id sensor_42) ?os = [PInt 2, PInt 1]"
    by (simp add: quantities_def m42 sensor_42_def order_quantity_def subscript_cases)
  have q99: "quantities (item_id sensor_99) ?os = []"
    by (simp add: quantities_def m99 sensor_99_def)
  have s42: "sum_of_quantities (quantities (item_id sensor_42) ?os) (PInt 3)"
    by (simp add: q42 sum_of_quantities_def is_integer_def integer_value_def)
  have s99: "sum_of_quantities (quantities (item_id sensor_99) ?os) (PInt 0)"
    by (simp add: q99 sum_of_quantities_def)
  from orders_counted_and_summed [OF o d l(1) n s42]
  have "\<exists>a. extra_state_attributes with_orders sensor_42 = Inr a
        \<and> a ATTR_ORDERS_PLACED = Some (PInt 2) \<and> a ATTR_TOTAL_QUANTITY_ORDERED = Some (PInt 3)"
    by (simp add: sensor_42_def m42 py_positive_def)
  moreover from orders_counted_and_summed [OF o d l(2) n s99]
  have "\<exists>a. extra_state_attributes with_orders sensor_99 = Inr a
        \<and> a ATTR_ORDERS_PLACED = Some (PInt 0) \<and> a ATTR_TOTAL_QUANTITY_ORDERED = None"
    by (simp add: sensor_99_def m99 py_positive_def)
  ultimately show ?thesis by blast
qed

section \<open>The price text\<close>

text \<open>The float \<open>250 / 100\<close> and its text, evaluated step by step.\<close>

lemma bit_length_0: "bit_length 0 = 0"
  by (simp add: bit_length.simps)

lemma bit_length_pos: "0 < n \<Longrightarrow> bit_length n = Suc (bit_length (n div 2))"
  by (subst bit_length.simps) simp

lemma digits10_small: "n < 10 \<Longrightarrow> digits10 n = [digit_char n]"
  by (subst digits10.simps) simp

lemma digits10_large: "10 \<le> n \<Longrightarrow> digits10 n = digits10 (n div 10) @ [digit_char (n mod 10)]"
  by (subst digits10.simps) simp

lemmas float_eval =
  bit_length_0 bit_length_pos digits10_small digits10_large digit_char_def
  floor_log2_def scale2_def scale10_def round_half_even_def nearest_double_def Let_def

lemma nearest_5_2: "nearest_double False 250 100 = Some (FFin False 5629499534213120 (- 51))"
  by (simp add: float_eval)

lemma two_and_a_half: "int_truediv 250 100 = Inr (FFin False 5629499534213120 (- 51))"
  by (simp add: int_truediv_def nearest_5_2)

lemma nearest_2: "nearest_double False 2 (Suc 0) = Some (FFin False 4503599627370496 (- 51))"
  by (simp add: float_eval)

lemma nearest_3: "nearest_double False 3 (Suc 0) = Some (FFin False 6755399441055744 (- 51))"
  by (simp add: float_eval)

lemma nearest_25_10: "nearest_double False 25 10 = Some (FFin False 5629499534213120 (- 51))"
  by (simp add: float_eval)

lemma shortest_numeral:
  "shortest x a b s (numeral k) =
     (case try_digits x a b s of Some r \<Rightarrow> r | None \<Rightarrow> shortest x a b (s + 1) (pred_numeral k))"
  by (simp add: numeral_eq_Suc)

lemma dec_exp: "decimal_exponent 5629499534213120 2251799813685248 = 0"
  by (simp add: decimal_exponent_def digits10_small)

lemma digits_1: "try_digits (FFin False 5629499534213120 (- 51)) 5629499534213120 2251799813685248 0 = None"
  by (simp add: try_digits_def round_trips_def scale10_def Let_def nearest_2 nearest_3)

lemma digits_2: "try_digits (FFin False 5629499534213120 (- 51)) 5629499534213120 2251799813685248 1
    = Some (25, 1)"
  by (simp add: try_digits_def round_trips_def scale10_def Let_def nearest_25_10)

lemma two_and_a_half_text: "float_repr (FFin False 5629499534213120 (- 51)) = ''2.5''"
  by (simp add: float_repr_def scale2_def dec_exp shortest_numeral digits_1 digits_2
        float_format_def digits10_small digits10_large digit_char_def)

lemma bakery_listing:
  "listing_attributes (bakery (PInt 250)) = Inr bakery_listing_attributes"
  by (simp add: subscript_cases bakery_def euro_def listing_attributes_def item_attributes_def
      contains_def assign_def item_url_def py_str_def price_text_def py_int_def pow10_def
      py_truediv_def two_and_a_half two_and_a_half_text py_concat_def
      bakery_listing_attributes_def)




section \<open>The placeholder for the orders\<close>

text \<open>
  C10. The claim is that on every snapshot the coordinator produces every sensor reports
  \<open>orders_placed = 0\<close>, never the attributes taken from orders, and without error. For a
  listing whose \<open>item_price\<close> has no fields the derivation of the price raises \<open>KeyError\<close>,
  the projection is the empty fallback of line 265, and \<open>orders_placed\<close> is not reported.
\<close>

theorem malformed_listing_counterexample:
  "TGTGSensor_init (refreshed unpriced) ''42'' = Inr sensor_42
   \<and> subscript (data (refreshed unpriced)) ''orders'' = Inr (PStr [])
   \<and> extra_state_attributes (refreshed unpriced) sensor_42 = Inr Map.empty
   \<and> Map.empty ATTR_ORDERS_PLACED \<noteq> Some (PInt 0)"
  by (simp add: TGTGSensor_init_def extra_state_attributes_def attributes_body_def refresh_defs
      subscript_cases sensor_42_def unpriced_def py_get_def listing_attributes_def
      item_attributes_def contains_def assign_def item_url_def py_str_def price_text_def
      except_KeyError_TypeError_def raise_def)

text \<open>
  C10, amended. On every snapshot whose \<open>orders\<close> entry is the empty text the coordinator
  stores at line 139 (every snapshot it produces, unless a listing is itself identified
  as \<open>orders\<close>), and for every sensor whose listing is in the snapshot and whose listing part
  of the projection (lines 209--246) derives its attributes \<open>a0\<close> without error, the
  projection succeeds without error and is \<open>a0\<close> with \<open>orders_placed = 0\<close>: it has none of
  \<open>total_quantity_ordered\<close>, \<open>pickup_window_changed\<close> and \<open>cancel_until\<close>.
\<close>

theorem placeholder_orders_add_nothing:
  assumes "subscript (data coord) ''orders'' = Inr (PStr [])"
    and "subscript (data coord) (item_id self) = Inr listing"
    and "listing_attributes listing = Inr a0"
  shows "\<exists>a. extra_state_attributes coord self = Inr a
    \<and> a = a0(ATTR_ORDERS_PLACED \<mapsto> PInt 0)
    \<and> a ATTR_ORDERS_PLACED = Some (PInt 0)
    \<and> a ATTR_TOTAL_QUANTITY_ORDERED = None
    \<and> a ATTR_PICKUP_WINDOW_CHANGED = None
    \<and> a ATTR_CANCEL_UNTIL = None"
proof -
  from assms(1) have g: "py_get (data coord) ''orders'' (PList []) = Inr (PStr [])"
    by (auto simp: subscript_Inr_iff py_get_def)
  have "attributes_body (data coord) (item_id self) = Inr (a0(ATTR_ORDERS_PLACED \<mapsto> PInt 0))"
    using assms(2,3) g by (simp add: attributes_body_def py_iter_def py_positive_def)
  then have "extra_state_attributes coord self = Inr (a0(ATTR_ORDERS_PLACED \<mapsto> PInt 0))"
    by (simp add: extra_state_attributes_def except_KeyError_TypeError_def)
  moreover from listing_attributes_dom [OF assms(3)] order_keys_not_listing_keys
  have "a0 ATTR_TOTAL_QUANTITY_ORDERED = None" "a0 ATTR_PICKUP_WINDOW_CHANGED = None"
    "a0 ATTR_CANCEL_UNTIL = None"
    by blast+
  ultimately show ?thesis by (simp add: attr_defs)
qed

theorem placeholder_orders_add_nothing_witness:
  "subscript (data (refreshed (bakery (PInt 250)))) ''orders'' = Inr (PStr [])
   \<and> subscript (data (refreshed (bakery (PInt 250)))) (item_id sensor_42) = Inr (bakery (PInt 250))
   \<and> listing_attributes (bakery (PInt 250)) = Inr bakery_listing_attributes
   \<and> extra_state_attributes (refreshed (bakery (PInt 250))) sensor_42
       = Inr (bakery_listing_attributes(ATTR_ORDERS_PLACED \<mapsto> PInt 0))
   \<and> (bakery_listing_attributes(ATTR_ORDERS_PLACED \<mapsto> PInt 0)) ATTR_TOTAL_QUANTITY_ORDERED = None
   \<and> (bakery_listing_attributes(ATTR_ORDERS_PLACED \<mapsto> PInt 0)) ATTR_PICKUP_WINDOW_CHANGED = None
   \<and> (bakery_listing_attributes(ATTR_ORDERS_PLACED \<mapsto> PInt 0)) ATTR_CANCEL_UNTIL = None"
proof -
  have 1: "subscript (data (refreshed (bakery (PInt 250)))) ''orders'' = Inr (PStr [])"
    by (simp add: refresh_defs subscript_cases)
  have 2: "subscript (data (refreshed (bakery (PInt 250)))) (item_id sensor_42)
      = Inr (bakery (PInt 250))"
    by (simp add: refresh_defs sensor_42_def subscript_cases)
  from placeholder_orders_add_nothing [OF 1 2 bakery_listing] 1 2 bakery_listing
  show ?thesis by auto
qed

end
